theory Spec2Isabelle
  imports Complex_Main "HOL-Library.Word"
begin

section \<open>Exceptions\<close>

text \<open>
  The exception classes of \<^verbatim>\<open>libconfigpp.h\<close>, one constructor per class, with the
  fields each class carries: the message (\<^verbatim>\<open>what()\<close>) first, then the path of a
  \<^verbatim>\<open>SettingException\<close> or the file, line and offset of a \<^verbatim>\<open>ParseException\<close>.
  \<^verbatim>\<open>InvalidArgument\<close> is \<^verbatim>\<open>std::invalid_argument\<close>, and \<^verbatim>\<open>FilesystemError\<close> is the
  \<^verbatim>\<open>boost::filesystem::filesystem_error\<close> a \<^verbatim>\<open>directory_iterator\<close> throws.
\<close>

datatype error =
    ConfigException string
  | SettingNotFoundException string string
  | SettingNameException string string
  | SettingTypeException string string
  | FileIOException string
  | ParseException string string nat nat
  | InvalidArgument string
  | FilesystemError string

text \<open>
  Every one of these classes derives from \<^verbatim>\<open>std::exception\<close> (through
  \<^verbatim>\<open>std::runtime_error\<close> or \<^verbatim>\<open>std::logic_error\<close>), which is what a
  \<^verbatim>\<open>catch (std::exception&)\<close> clause tests.
\<close>

fun is_std_exception :: "error \<Rightarrow> bool" where
  "is_std_exception (ConfigException _) = True"
| "is_std_exception (SettingNotFoundException _ _) = True"
| "is_std_exception (SettingNameException _ _) = True"
| "is_std_exception (SettingTypeException _ _) = True"
| "is_std_exception (FileIOException _) = True"
| "is_std_exception (ParseException _ _ _ _) = True"
| "is_std_exception (InvalidArgument _) = True"
| "is_std_exception (FilesystemError _) = True"

definition type_ex :: "string \<Rightarrow> error" where
  "type_ex msg = SettingTypeException msg []"

definition name_ex :: "string \<Rightarrow> error" where
  "name_ex msg = SettingNameException msg []"

definition not_found_ex :: "string \<Rightarrow> error" where
  "not_found_ex path = SettingNotFoundException ''Setting not found'' path"

section \<open>The data model\<close>

datatype Type =
  TypeInt | TypeInt64 | TypeFloat | TypeString | TypeBoolean | TypeArray | TypeList | TypeGroup

datatype Format = FormatHex | FormatDefault

text \<open>
  The payload of a \<^verbatim>\<open>_basic_setting_scalar<T>\<close>: the \<^verbatim>\<open>boost::any\<close> always holds a
  value of the template parameter \<^verbatim>\<open>T\<close>, one of \<^verbatim>\<open>bool\<close>, \<^verbatim>\<open>int\<close> (32 bits),
  \<^verbatim>\<open>long\<close> (64 bits, the LP64 data model), \<^verbatim>\<open>float\<close> and \<^verbatim>\<open>string_type\<close>.
  IEEE arithmetic is outside the embedding: the type of \<^verbatim>\<open>float\<close> values is the
  parameter \<open>'f\<close>, that of \<^verbatim>\<open>double\<close> values is \<open>'d\<close>, and the operations of the
  language on them are the fields of \<open>float_ops\<close>.
\<close>

datatype 'f scalar =
  SBool bool | SInt "32 word" | SInt64 "64 word" | SFloat 'f | SString string

record ('f, 'd) float_ops =
  float_of_long :: "64 word \<Rightarrow> 'f"
  float_ne_zero :: "'f \<Rightarrow> bool"
  float_eq :: "'f \<Rightarrow> 'f \<Rightarrow> bool"
  double_of_float :: "'f \<Rightarrow> 'd"
  int_of_float :: "'f \<Rightarrow> 32 word"
  long_of_float :: "'f \<Rightarrow> 64 word"

text \<open>
  An instance for closed examples: floats as exact rationals. It agrees with IEEE
  single precision on the small integers the examples use.
\<close>

definition exact_ops :: "(rat, rat) float_ops" where
  "exact_ops = \<lparr> float_of_long = (\<lambda>t. of_int (sint t)),
                 float_ne_zero = (\<lambda>x. x \<noteq> 0),
                 float_eq = (\<lambda>x y. x = y),
                 double_of_float = (\<lambda>x. x),
                 int_of_float = (\<lambda>x. word_of_int (sgn \<lfloor>x\<rfloor> * \<lfloor>\<bar>x\<bar>\<rfloor>)),
                 long_of_float = (\<lambda>x. word_of_int (sgn \<lfloor>x\<rfloor> * \<lfloor>\<bar>x\<bar>\<rfloor>)) \<rparr>"

fun deduce_scalar_type :: "'f scalar \<Rightarrow> Type" where
  "deduce_scalar_type (SBool _) = TypeBoolean"
| "deduce_scalar_type (SInt _) = TypeInt"
| "deduce_scalar_type (SInt64 _) = TypeInt64"
| "deduce_scalar_type (SFloat _) = TypeFloat"
| "deduce_scalar_type (SString _) = TypeString"

section \<open>Scalar conversions: \<^verbatim>\<open>_basic_setting_scalar<T>::lookupValue\<close>\<close>

text \<open>
  One function per overload. Each returns the value stored into the reference argument,
  or the exception thrown. \<^verbatim>\<open>long\<close> values are 64-bit words read with \<open>sint\<close>.
\<close>

fun lookupValue_long :: "'f scalar \<Rightarrow> error + 64 word" where
  "lookupValue_long (SBool t) = (if t then Inr 1 else Inr 0)"
| "lookupValue_long (SInt v) = Inr (scast v)"
| "lookupValue_long (SInt64 v) = Inr v"
| "lookupValue_long _ = Inl (type_ex ''unsupported conversion'')"

definition integral :: "Type \<Rightarrow> bool" where
  \<comment> \<open>the case labels \<^verbatim>\<open>TypeBoolean: TypeInt: TypeInt64:\<close> that share one body\<close>
  "integral ty = (ty = TypeBoolean \<or> ty = TypeInt \<or> ty = TypeInt64)"

definition lookupValue_bool :: "('f, 'd) float_ops \<Rightarrow> 'f scalar \<Rightarrow> error + bool" where
  "lookupValue_bool ops s =
     (if integral (deduce_scalar_type s) then
        (case lookupValue_long s of Inl e \<Rightarrow> Inl e | Inr t \<Rightarrow> Inr (t \<noteq> 0))
      else (case s of
          SFloat t \<Rightarrow> Inr (float_ne_zero ops t)
        | _ \<Rightarrow> Inl (type_ex ''unsupported conversion'')))"

definition lookupValue_int :: "'f scalar \<Rightarrow> error + 32 word" where
  "lookupValue_int s =
     (if integral (deduce_scalar_type s) then
        (case lookupValue_long s of Inl e \<Rightarrow> Inl e
         | Inr t \<Rightarrow>
             if sint t > 2147483647 \<or> sint t < - 2147483648
             then Inl (type_ex ''type overflow'')
             else Inr (ucast t))
      else Inl (type_ex ''unsupported conversion''))"

definition lookupValue_unsigned :: "'f scalar \<Rightarrow> error + 32 word" where
  "lookupValue_unsigned s =
     (if integral (deduce_scalar_type s) then
        (case lookupValue_long s of Inl e \<Rightarrow> Inl e
         | Inr t \<Rightarrow>
             if sint t < 0 then Inl (type_ex ''negative value'')
             else if sint t > 4294967295 then Inl (type_ex ''type overflow'')
             else Inr (ucast t))
      else Inl (type_ex ''unsupported conversion''))"

definition lookupValue_ulong :: "'f scalar \<Rightarrow> error + 64 word" where
  "lookupValue_ulong s =
     (if integral (deduce_scalar_type s) then
        (case lookupValue_long s of Inl e \<Rightarrow> Inl e
         | Inr t \<Rightarrow>
             if sint t \<ge> 0 then Inr t
             else Inl (type_ex ''negative value''))
      else Inl (type_ex ''unsupported conversion''))"

definition lookupValue_float :: "('f, 'd) float_ops \<Rightarrow> 'f scalar \<Rightarrow> error + 'f" where
  "lookupValue_float ops s =
     (if integral (deduce_scalar_type s) then
        (case lookupValue_long s of Inl e \<Rightarrow> Inl e
         | Inr t \<Rightarrow> Inr (float_of_long ops t))
      else (case s of
          SFloat t \<Rightarrow> Inr t
        | _ \<Rightarrow> Inl (type_ex ''unsupported conversion'')))"

definition lookupValue_double :: "('f, 'd) float_ops \<Rightarrow> 'f scalar \<Rightarrow> error + 'd" where
  "lookupValue_double ops s =
     (if integral (deduce_scalar_type s) \<or> deduce_scalar_type s = TypeFloat then
        (case lookupValue_float ops s of Inl e \<Rightarrow> Inl e
         | Inr t \<Rightarrow> Inr (double_of_float ops t))
      else Inl (type_ex ''unsupported conversion''))"

definition lookupValue_string :: "'f scalar \<Rightarrow> error + string" where
  "lookupValue_string s =
     (case s of
        SString v \<Rightarrow> Inr v
      | _ \<Rightarrow> Inl (type_ex ''unsupported conversion''))"

text \<open>
  The eight requested types, and a value of any of them, to state properties of all
  overloads at once.
\<close>

datatype target = T_bool | T_int | T_unsigned | T_long | T_ulong | T_float | T_double | T_string

datatype ('f, 'd) cvalue =
    V_bool bool | V_int "32 word" | V_unsigned "32 word" | V_long "64 word"
  | V_ulong "64 word" | V_float 'f | V_double 'd | V_string string

fun convert_to :: "('f, 'd) float_ops \<Rightarrow> target \<Rightarrow> 'f scalar \<Rightarrow> error + ('f, 'd) cvalue" where
  "convert_to ops T_bool s = map_sum id V_bool (lookupValue_bool ops s)"
| "convert_to ops T_int s = map_sum id V_int (lookupValue_int s)"
| "convert_to ops T_unsigned s = map_sum id V_unsigned (lookupValue_unsigned s)"
| "convert_to ops T_long s = map_sum id V_long (lookupValue_long s)"
| "convert_to ops T_ulong s = map_sum id V_ulong (lookupValue_ulong s)"
| "convert_to ops T_float s = map_sum id V_float (lookupValue_float ops s)"
| "convert_to ops T_double s = map_sum id V_double (lookupValue_double ops s)"
| "convert_to ops T_string s = map_sum id V_string (lookupValue_string s)"

definition raises_type_error :: "error + 'a \<Rightarrow> bool" where
  "raises_type_error r = (case r of Inl (SettingTypeException _ _) \<Rightarrow> True | _ \<Rightarrow> False)"

subsection \<open>The conversion matrix\<close>

text \<open>
  \<open>spec_matrix\<close> is the table of the specification (section 4.4), cell by cell, for
  comparison with the code: permitted, forbidden, or permitted with a range check.
  The specification has no row for the aggregate types; the code raises SettingType
  for them, so their cells read forbidden. \<open>code_matrix\<close> is the same table with the
  two cells Boolean to \<^verbatim>\<open>float\<close> and Boolean to \<^verbatim>\<open>double\<close> permitted.
\<close>

datatype cell = Permitted | Forbidden | Checked

fun spec_matrix :: "Type \<Rightarrow> target \<Rightarrow> cell" where
  "spec_matrix TypeBoolean T_bool = Permitted"
| "spec_matrix TypeBoolean T_int = Permitted"
| "spec_matrix TypeBoolean T_unsigned = Permitted"
| "spec_matrix TypeBoolean T_long = Permitted"
| "spec_matrix TypeBoolean T_ulong = Permitted"
| "spec_matrix TypeBoolean _ = Forbidden"
| "spec_matrix TypeInt T_bool = Permitted"
| "spec_matrix TypeInt T_int = Permitted"
| "spec_matrix TypeInt T_unsigned = Checked"
| "spec_matrix TypeInt T_long = Permitted"
| "spec_matrix TypeInt T_ulong = Checked"
| "spec_matrix TypeInt T_float = Permitted"
| "spec_matrix TypeInt T_double = Permitted"
| "spec_matrix TypeInt T_string = Forbidden"
| "spec_matrix TypeInt64 T_bool = Permitted"
| "spec_matrix TypeInt64 T_int = Checked"
| "spec_matrix TypeInt64 T_unsigned = Checked"
| "spec_matrix TypeInt64 T_long = Permitted"
| "spec_matrix TypeInt64 T_ulong = Checked"
| "spec_matrix TypeInt64 T_float = Permitted"
| "spec_matrix TypeInt64 T_double = Permitted"
| "spec_matrix TypeInt64 T_string = Forbidden"
| "spec_matrix TypeFloat T_bool = Permitted"
| "spec_matrix TypeFloat T_float = Permitted"
| "spec_matrix TypeFloat T_double = Permitted"
| "spec_matrix TypeFloat _ = Forbidden"
| "spec_matrix TypeString T_string = Permitted"
| "spec_matrix TypeString _ = Forbidden"
| "spec_matrix _ _ = Forbidden"

definition code_matrix :: "Type \<Rightarrow> target \<Rightarrow> cell" where
  "code_matrix ty tg =
     (if ty = TypeBoolean \<and> (tg = T_float \<or> tg = T_double) then Permitted
      else spec_matrix ty tg)"

section \<open>The setting tree\<close>

text \<open>
  A \<^verbatim>\<open>basic_setting\<close> has a name and a value object, whose class is one of
  \<^verbatim>\<open>_basic_setting_scalar<T>\<close>, \<^verbatim>\<open>_basic_setting_list\<close>, \<^verbatim>\<open>_basic_setting_array\<close> and
  \<^verbatim>\<open>_basic_setting_container\<close>. Every constructor sets \<^verbatim>\<open>m_type\<close> together with the
  class of \<^verbatim>\<open>m_value\<close>, so the model reads the type off the value (\<open>getType\<close>).
  A container's \<^verbatim>\<open>std::map\<close> is the list of its children in key order; the key of a
  child is its own name. Children are held by value: the deep copies of the source
  are the identity here. The parent pointer is not stored; the one function that
  reads it (the group printer) takes it as an argument.
\<close>

datatype 'f setting = Setting (m_name: string) (m_value: "'f basic_setting")
and 'f basic_setting =
    Scalar "'f scalar" Format
  | SettingList "'f setting list"
  | SettingArray "'f setting list"
  | SettingContainer "'f setting list"

fun getType :: "'f setting \<Rightarrow> Type" where
  "getType (Setting n (Scalar s f)) = deduce_scalar_type s"
| "getType (Setting n (SettingList xs)) = TypeList"
| "getType (Setting n (SettingArray xs)) = TypeArray"
| "getType (Setting n (SettingContainer xs)) = TypeGroup"

definition isScalar :: "'f setting \<Rightarrow> bool" where
  "isScalar s = (let ty = getType s in
     (ty = TypeInt \<or> ty = TypeInt64 \<or> ty = TypeFloat) \<or> ty = TypeBoolean \<or> ty = TypeString)"

subsection \<open>Decimal numerals\<close>

fun digit_char :: "nat \<Rightarrow> char" where
  "digit_char n = char_of (48 + n)"

function show_nat :: "nat \<Rightarrow> string" where
  "show_nat n = (if n < 10 then [digit_char n] else show_nat (n div 10) @ [digit_char (n mod 10)])"
  by pat_completeness auto
termination
  by (relation "measure id") auto

declare show_nat.simps [simp del]

definition is_digit :: "char \<Rightarrow> bool" where
  "is_digit c = (48 \<le> (of_char c :: nat) \<and> (of_char c :: nat) \<le> 57)"

definition digit_val :: "char \<Rightarrow> nat" where
  "digit_val c = of_char c - 48"

definition read_nat :: "string \<Rightarrow> nat" where
  "read_nat ds = foldl (\<lambda>acc c. 10 * acc + digit_val c) 0 ds"

definition not_found_ex_index :: "nat \<Rightarrow> error" where
  "not_found_ex_index index = not_found_ex (''['' @ show_nat index @ '']'')"

subsection \<open>The virtual methods of a value\<close>

fun children :: "'f basic_setting \<Rightarrow> 'f setting list" where
  "children (Scalar s f) = []"
| "children (SettingList xs) = xs"
| "children (SettingArray xs) = xs"
| "children (SettingContainer xs) = xs"

fun at_name :: "'f basic_setting \<Rightarrow> string \<Rightarrow> error + 'f setting" where
  "at_name (SettingContainer xs) property =
     (case find (\<lambda>c. m_name c = property) xs of
        Some c \<Rightarrow> Inr c
      | None \<Rightarrow> Inl (not_found_ex property))"
| "at_name _ property = Inl (not_found_ex property)"

fun at_index :: "'f basic_setting \<Rightarrow> nat \<Rightarrow> error + 'f setting" where
  "at_index (Scalar s f) index = Inl (not_found_ex_index index)"
| "at_index v index =
     (if index < length (children v) then Inr (children v ! index)
      else Inl (not_found_ex_index index))"

fun exists_name :: "'f basic_setting \<Rightarrow> string \<Rightarrow> bool" where
  "exists_name (SettingContainer xs) property = (find (\<lambda>c. m_name c = property) xs \<noteq> None)"
| "exists_name _ property = False"

fun exists_index :: "'f basic_setting \<Rightarrow> nat \<Rightarrow> bool" where
  "exists_index (Scalar s f) index = False"
| "exists_index v index = (index < length (children v))"

fun string_less :: "string \<Rightarrow> string \<Rightarrow> bool" where
  "string_less [] [] = False"
| "string_less [] (y # ys) = True"
| "string_less (x # xs) [] = False"
| "string_less (x # xs) (y # ys) =
     (if (of_char x :: nat) < of_char y then True
      else if (of_char y :: nat) < of_char x then False
      else string_less xs ys)"

fun map_insert :: "'f setting \<Rightarrow> 'f setting list \<Rightarrow> 'f setting list" where
  "map_insert v [] = [v]"
| "map_insert v (c # cs) =
     (if string_less (m_name v) (m_name c) then v # c # cs else c # map_insert v cs)"

fun add :: "'f basic_setting \<Rightarrow> 'f setting \<Rightarrow> error + 'f basic_setting" where
  "add (Scalar s f) v = Inl (ConfigException ''operation not supported'')"
| "add (SettingList xs) v = Inr (SettingList (xs @ [v]))"
| "add (SettingArray xs) v =
     (if \<not> isScalar v then Inl (type_ex ''Array elements must be scalar values'')
      else if length xs \<noteq> 0 \<and> getType (xs ! 0) \<noteq> getType v
        then Inl (type_ex ''Array elements must have same type'')
      else Inr (SettingArray (xs @ [v])))"
| "add (SettingContainer xs) v =
     (if find (\<lambda>c. m_name c = m_name v) xs \<noteq> None
        then Inl (name_ex (m_name v @ '' already exists''))
      else Inr (SettingContainer (map_insert v xs)))"

fun remove_name :: "'f basic_setting \<Rightarrow> string \<Rightarrow> error + 'f basic_setting" where
  "remove_name (SettingContainer xs) property =
     (if find (\<lambda>c. m_name c = property) xs \<noteq> None
        then Inr (SettingContainer (filter (\<lambda>c. m_name c \<noteq> property) xs))
      else Inl (not_found_ex property))"
| "remove_name _ property = Inl (not_found_ex property)"

fun remove_index :: "'f basic_setting \<Rightarrow> nat \<Rightarrow> error + 'f basic_setting" where
  "remove_index (Scalar s f) index = Inl (not_found_ex_index index)"
| "remove_index (SettingList xs) index =
     (if index \<ge> length xs then Inl (not_found_ex_index index)
      else Inr (SettingList (take index xs @ drop (Suc index) xs)))"
| "remove_index (SettingArray xs) index =
     (if index \<ge> length xs then Inl (not_found_ex_index index)
      else Inr (SettingArray (take index xs @ drop (Suc index) xs)))"
| "remove_index (SettingContainer xs) index =
     (case at_index (SettingContainer xs) index of
        Inl e \<Rightarrow> Inl e
      | Inr c \<Rightarrow> Inr (SettingContainer (filter (\<lambda>x. m_name x \<noteq> m_name c) xs)))"

subsection \<open>Paths\<close>

text \<open>
  The private helpers of \<^verbatim>\<open>basic_setting\<close>, whose names start with an underscore in the
  source: \<open>long_path\<close>, \<open>path_local\<close>, \<open>path_remote\<close>, \<open>path_parent\<close>, \<open>path_leaf\<close>,
  \<open>convert_index\<close>, \<open>check_path\<close>, \<open>exists_path\<close> (\<^verbatim>\<open>_exists\<close>) and \<open>setting_at\<close>
  (\<^verbatim>\<open>_at\<close>, which is all that \<^verbatim>\<open>operator[]\<close> on a string calls). \<^verbatim>\<open>find_first_of\<close> and
  \<^verbatim>\<open>find_last_of\<close> return \<open>None\<close> for \<^verbatim>\<open>npos\<close>. \<open>rx_index_match\<close> is \<^verbatim>\<open>regex_match\<close>
  with \<^verbatim>\<open>^\[\d+\]\.?\<close>, and \<open>convert_index\<close> fails when the digits do not fit a
  \<^verbatim>\<open>size_t\<close>.
\<close>

fun find_first_of :: "string \<Rightarrow> char \<Rightarrow> nat option" where
  "find_first_of [] c = None"
| "find_first_of (x # xs) c = (if x = c then Some 0 else map_option Suc (find_first_of xs c))"

definition find_last_of :: "string \<Rightarrow> char \<Rightarrow> nat option" where
  "find_last_of s c = map_option (\<lambda>k. length s - 1 - k) (find_first_of (rev s) c)"

definition long_path :: "string \<Rightarrow> bool" where
  "long_path path = (find_first_of path CHR ''.'' \<noteq> None)"

definition path_local :: "string \<Rightarrow> string" where
  "path_local path =
     (case find_first_of path CHR ''.'' of Some k \<Rightarrow> take k path | None \<Rightarrow> path)"

definition path_remote :: "string \<Rightarrow> string" where
  "path_remote path =
     (case find_first_of path CHR ''.'' of Some k \<Rightarrow> drop (k + 1) path | None \<Rightarrow> [])"

definition path_parent :: "string \<Rightarrow> string" where
  "path_parent path =
     (case find_last_of path CHR ''.'' of Some k \<Rightarrow> take k path | None \<Rightarrow> [])"

definition path_leaf :: "string \<Rightarrow> string" where
  "path_leaf path =
     (case find_last_of path CHR ''.'' of Some k \<Rightarrow> drop (k + 1) path | None \<Rightarrow> path)"

definition rx_index_match :: "string \<Rightarrow> bool" where
  "rx_index_match path =
     (case path of
        [] \<Rightarrow> False
      | c # r \<Rightarrow> c = CHR ''['' \<and> takeWhile is_digit r \<noteq> []
          \<and> (dropWhile is_digit r = '']'' \<or> dropWhile is_digit r = ''].''))"

definition convert_index :: "string \<Rightarrow> nat option" where
  "convert_index path =
     (if rx_index_match path then
        (let i = read_nat (takeWhile is_digit (drop 1 path))
         in if i < 2 ^ 64 then Some i else None)
      else None)"

definition rethrow_not_found :: "string \<Rightarrow> error + 'a \<Rightarrow> error + 'a" where
  "rethrow_not_found path r =
     (case r of
        Inl (SettingNotFoundException what p) \<Rightarrow> Inl (SettingNotFoundException what path)
      | _ \<Rightarrow> r)"

lemma path_remote_shorter: "long_path path \<Longrightarrow> length (path_remote path) < length path"
  by (cases path) (auto simp: long_path_def path_remote_def split: option.splits)

function setting_at :: "'f setting \<Rightarrow> string \<Rightarrow> error + 'f setting" where
  "setting_at s path =
     (if path = [] then Inr s
      else rethrow_not_found path
        (if \<not> long_path path then
           (case convert_index path of
              Some index \<Rightarrow> at_index (m_value s) index
            | None \<Rightarrow> at_name (m_value s) path)
         else
           (case convert_index (path_local path) of
              Some index \<Rightarrow>
                (case at_index (m_value s) index of
                   Inl e \<Rightarrow> Inl e
                 | Inr c \<Rightarrow> setting_at c (path_remote path))
            | None \<Rightarrow>
                (case at_name (m_value s) (path_local path) of
                   Inl e \<Rightarrow> Inl e
                 | Inr c \<Rightarrow> setting_at c (path_remote path)))))"
  by pat_completeness auto
termination
  by (relation "measure (\<lambda>(s, path). length path)") (auto simp: path_remote_shorter)

declare setting_at.simps [simp del]

text \<open>
  \<^verbatim>\<open>_exists\<close> passes the whole path to \<^verbatim>\<open>_convert_index\<close> in its second branch, where
  \<^verbatim>\<open>_at\<close> passes the local part; the model follows the source.
\<close>

function exists_path :: "'f setting \<Rightarrow> string \<Rightarrow> error + bool" where
  "exists_path s path =
     (if \<not> long_path path then
        (case convert_index path of
           Some index \<Rightarrow> Inr (exists_index (m_value s) index)
         | None \<Rightarrow> Inr (exists_name (m_value s) path))
      else
        (case convert_index path of
           Some index \<Rightarrow>
             (if exists_index (m_value s) index then
                (case at_index (m_value s) index of
                   Inl e \<Rightarrow> Inl e
                 | Inr c \<Rightarrow> exists_path c (path_remote path))
              else Inr False)
         | None \<Rightarrow>
             (if exists_name (m_value s) (path_local path) then
                (case at_name (m_value s) (path_local path) of
                   Inl e \<Rightarrow> Inl e
                 | Inr c \<Rightarrow> exists_path c (path_remote path))
              else Inr False)))"
  by pat_completeness auto
termination
  by (relation "measure (\<lambda>(s, path). length path)") (auto simp: path_remote_shorter)

declare exists_path.simps [simp del]

definition check_path :: "string \<Rightarrow> error + unit" where
  "check_path path =
     (if path = [] then Inl (InvalidArgument ''Path is empty'')
      else if path ! 0 = CHR ''.'' \<or> path ! (length path - 1) = CHR ''.''
        then Inl (InvalidArgument ''Path can not begin or end with dot(.)'')
      else Inr ())"

definition exists :: "'f setting \<Rightarrow> string \<Rightarrow> error + bool" where
  "exists s path =
     (case check_path path of Inl e \<Rightarrow> Inl e | Inr _ \<Rightarrow> exists_path s path)"

text \<open>
  \<^verbatim>\<open>remove\<close> erases a child of the setting that \<^verbatim>\<open>_at(_parent(path))\<close> refers to. The
  model returns the tree after the call: \<open>replace_at\<close> follows the path as
  \<open>setting_at\<close> does and puts the changed setting in the place of the old one.
\<close>

fun set_child_index :: "'f basic_setting \<Rightarrow> nat \<Rightarrow> 'f setting \<Rightarrow> 'f basic_setting" where
  "set_child_index (Scalar s f) i c = Scalar s f"
| "set_child_index (SettingList xs) i c = SettingList (xs[i := c])"
| "set_child_index (SettingArray xs) i c = SettingArray (xs[i := c])"
| "set_child_index (SettingContainer xs) i c = SettingContainer (xs[i := c])"

fun set_child_name :: "'f basic_setting \<Rightarrow> string \<Rightarrow> 'f setting \<Rightarrow> 'f basic_setting" where
  "set_child_name (SettingContainer xs) n c =
     SettingContainer (map (\<lambda>x. if m_name x = n then c else x) xs)"
| "set_child_name v n c = v"

function replace_at :: "'f setting \<Rightarrow> string \<Rightarrow> 'f setting \<Rightarrow> 'f setting" where
  "replace_at s path new =
     (if path = [] then new
      else if \<not> long_path path then
        (case convert_index path of
           Some index \<Rightarrow> Setting (m_name s) (set_child_index (m_value s) index new)
         | None \<Rightarrow> Setting (m_name s) (set_child_name (m_value s) path new))
      else
        (case convert_index (path_local path) of
           Some index \<Rightarrow>
             (case at_index (m_value s) index of
                Inl e \<Rightarrow> s
              | Inr c \<Rightarrow> Setting (m_name s)
                  (set_child_index (m_value s) index (replace_at c (path_remote path) new)))
         | None \<Rightarrow>
             (case at_name (m_value s) (path_local path) of
                Inl e \<Rightarrow> s
              | Inr c \<Rightarrow> Setting (m_name s)
                  (set_child_name (m_value s) (path_local path)
                     (replace_at c (path_remote path) new)))))"
  by pat_completeness auto
termination
  by (relation "measure (\<lambda>(s, path, new). length path)") (auto simp: path_remote_shorter)

declare replace_at.simps [simp del]

definition remove :: "'f setting \<Rightarrow> string \<Rightarrow> error + 'f setting" where
  "remove s path =
     (case check_path path of
        Inl e \<Rightarrow> Inl e
      | Inr _ \<Rightarrow>
          (case setting_at s (path_parent path) of
             Inl e \<Rightarrow> Inl e
           | Inr p \<Rightarrow>
               (case remove_name (m_value p) (path_leaf path) of
                  Inl e \<Rightarrow> Inl e
                | Inr v \<Rightarrow> Inr (replace_at s (path_parent path) (Setting (m_name p) v)))))"

subsection \<open>\<^verbatim>\<open>lookupValue(path, value)\<close>\<close>

text \<open>
  The eight overloads \<^verbatim>\<open>lookupValue(path, T&)\<close> have one body:
  \<^verbatim>\<open>try { value = _at(path); return true; } catch (std::exception&) { return false; }\<close>.
  The assignment converts the setting with its \<^verbatim>\<open>operator T()\<close>, which calls the virtual
  \<^verbatim>\<open>lookupValue(T&)\<close> of the value: the one of the scalar class, or the one of the base
  class, which throws, for an aggregate. In \<open>lookupValue\<close>, \<open>tg\<close> selects the
  overload and \<open>val\<close> is the reference argument before the call; the result is the
  returned boolean and the reference argument after the call.
\<close>

definition operator_T :: "('f, 'd) float_ops \<Rightarrow> target \<Rightarrow> 'f setting \<Rightarrow> error + ('f, 'd) cvalue" where
  "operator_T ops tg s =
     (case m_value s of
        Scalar sc f \<Rightarrow> convert_to ops tg sc
      | _ \<Rightarrow> Inl (type_ex ''converion not implemented''))"

definition catch_std_exception :: "error + 'a \<Rightarrow> 'a \<Rightarrow> error + 'a" where
  "catch_std_exception body handler =
     (case body of
        Inl e \<Rightarrow> if is_std_exception e then Inr handler else Inl e
      | Inr r \<Rightarrow> Inr r)"

definition lookupValue ::
  "('f, 'd) float_ops \<Rightarrow> target \<Rightarrow> 'f setting \<Rightarrow> string \<Rightarrow> ('f, 'd) cvalue
     \<Rightarrow> error + (bool \<times> ('f, 'd) cvalue)" where
  "lookupValue ops tg s path val =
     catch_std_exception
       (case setting_at s path of
          Inl e \<Rightarrow> Inl e
        | Inr c \<Rightarrow>
            (case operator_T ops tg c of
               Inl e \<Rightarrow> Inl e
             | Inr v \<Rightarrow> Inr (True, v)))
       (False, val)"

definition example_root :: "rat setting" where
  "example_root = Setting [] (SettingContainer
      [Setting ''a'' (Scalar (SInt 5) FormatDefault),
       Setting ''g'' (SettingContainer [Setting ''b'' (Scalar (SString ''x'') FormatDefault)])])"

definition is_invalid_argument :: "error + 'a \<Rightarrow> bool" where
  "is_invalid_argument r = (case r of Inl (InvalidArgument _) \<Rightarrow> True | _ \<Rightarrow> False)"

definition invalid_path :: "string \<Rightarrow> bool" where
  "invalid_path path = (path = [] \<or> hd path = CHR ''.'' \<or> last path = CHR ''.'')"

definition is_not_found :: "error + 'a \<Rightarrow> bool" where
  "is_not_found r = (case r of Inl (SettingNotFoundException _ _) \<Rightarrow> True | _ \<Rightarrow> False)"

section \<open>Tokens and the tokenizer\<close>

text \<open>
  A \<^verbatim>\<open>token\<close> is a string with the line and offset it was read at and the file it
  came from (a null pointer until \<^verbatim>\<open>parser::parse\<close> sets it).
\<close>

record token =
  tok_text :: string
  tok_line :: nat
  tok_offset :: nat
  tok_file :: "string option"

definition mk_token :: "string \<Rightarrow> nat \<Rightarrow> nat \<Rightarrow> token" where
  \<comment> \<open>the constructors \<^verbatim>\<open>token(arg, _line, _offset)\<close>\<close>
  "mk_token arg l off = \<lparr> tok_text = arg, tok_line = l, tok_offset = off, tok_file = None \<rparr>"

text \<open>
  \<^verbatim>\<open>_syntax_exception(msg, tok, offset_at_end_of_token)\<close>. The source computes the
  local \<^verbatim>\<open>offset\<close> and builds the stream \<^verbatim>\<open>ss\<close>, then constructs the exception from
  \<^verbatim>\<open>ss.str()\<close>, to which nothing was written, and from \<^verbatim>\<open>tok.offset\<close>.
\<close>

definition syntax_exception :: "string \<Rightarrow> token \<Rightarrow> bool \<Rightarrow> error" where
  "syntax_exception msg tok offset_at_end_of_token =
     (let ss = [];
          offset = (if offset_at_end_of_token then tok_offset tok + length (tok_text tok)
                    else tok_offset tok);
          file = (case tok_file tok of Some f \<Rightarrow> f | None \<Rightarrow> [])
      in ParseException ss file (tok_line tok) (tok_offset tok))"

abbreviation DQUOTE :: char where "DQUOTE \<equiv> CHR 0x22"
abbreviation BACKSLASH :: char where "BACKSLASH \<equiv> CHR 0x5C"
abbreviation NEWLINE :: char where "NEWLINE \<equiv> CHR 0x0A"
abbreviation TAB :: char where "TAB \<equiv> CHR 0x09"
abbreviation NUL :: char where "NUL \<equiv> CHR 0x00"

text \<open>
  The state of a \<^verbatim>\<open>config_tokenizer\<close>. Its member \<^verbatim>\<open>escape\<close> is written by
  \<^verbatim>\<open>reset\<close> only and never read (the loops use locals of the same name), so it is
  left out. Lines and offsets are \<^verbatim>\<open>size_t\<close> counters of characters read, far from
  wrapping, and modelled as naturals.
\<close>

record tokenizer =
  is_string :: bool
  new_line :: bool
  line :: nat
  offset :: nat
  tmp_token :: string

definition reset :: tokenizer where
  "reset = \<lparr> is_string = False, new_line = False, line = 1, offset = 1, tmp_token = [] \<rparr>"

definition separators :: string where
  "separators = ''{}[](),/'' @ [BACKSLASH, DQUOTE] @ ''=:;''"

fun is_in_set :: "char \<Rightarrow> string \<Rightarrow> bool" where
  "is_in_set c [] = False"
| "is_in_set c (x # xs) = (if x = c then True else is_in_set c xs)"

definition isspace :: "char \<Rightarrow> bool" where
  \<comment> \<open>the C locale: space, and the controls 9 to 13\<close>
  "isspace c = ((of_char c :: nat) = 32 \<or> (9 \<le> (of_char c :: nat) \<and> (of_char c :: nat) \<le> 13))"

definition get :: "tokenizer \<Rightarrow> char \<Rightarrow> tokenizer" where
  \<comment> \<open>\<^verbatim>\<open>get(next)\<close> for the character \<open>c\<close> that \<^verbatim>\<open>*s++\<close> reads\<close>
  "get st c =
     (let st1 = st\<lparr>offset := offset st + 1\<rparr>;
          st2 = (if new_line st1 then st1\<lparr>line := line st1 + 1, offset := 1, new_line := False\<rparr>
                 else st1)
      in if c = NEWLINE then st2\<lparr>new_line := True\<rparr> else st2)"

fun skip_comment_loop ::
  "tokenizer \<Rightarrow> bool \<Rightarrow> bool \<Rightarrow> bool \<Rightarrow> string \<Rightarrow> error + (char \<times> string \<times> tokenizer)" where
  "skip_comment_loop st simple_comment complicated_comment escape [] = Inr (NUL, [], st)"
| "skip_comment_loop st simple_comment complicated_comment escape (c # next) =
     (let st1 = get st c in
      if is_string st1 then Inr (c, next, st1)
      else if complicated_comment then
        (if c = CHR ''/'' \<and> escape then skip_comment_loop st1 simple_comment False False next
         else if c = CHR ''*'' then skip_comment_loop st1 simple_comment complicated_comment True next
         else skip_comment_loop st1 simple_comment complicated_comment False next)
      else if simple_comment then
        (if c = NEWLINE then skip_comment_loop st1 False complicated_comment escape next
         else skip_comment_loop st1 simple_comment complicated_comment escape next)
      else if c = CHR ''#'' then skip_comment_loop st1 True complicated_comment escape next
      else if c = CHR ''/'' then
        (case next of
           [] \<Rightarrow> Inl (syntax_exception ''Unexpected end of comment''
                        (mk_token [c] (line st1) (offset st1)) False)
         | c2 # next2 \<Rightarrow>
             (let st2 = get st1 c2 in
              if c2 = CHR ''*'' then skip_comment_loop st2 simple_comment True escape next2
              else if c2 = CHR ''/'' then skip_comment_loop st2 True complicated_comment escape next2
              else Inl (syntax_exception (''Unexpected character '' @ [c2])
                          (mk_token [c2] (line st2) (offset st2)) False)))
      else Inr (c, next, st1))"

definition skip_comment :: "tokenizer \<Rightarrow> string \<Rightarrow> error + (char \<times> string \<times> tokenizer)" where
  "skip_comment st next = skip_comment_loop st False False False next"

lemma skip_comment_loop_shorter:
  "skip_comment_loop st sc cc esc next = Inr (c, next', st') \<Longrightarrow> length next' \<le> length next - 1"
proof (induction st sc cc esc "next" rule: skip_comment_loop.induct)
  case (1 st sc cc esc)
  then show ?case by simp
next
  case (2 st sc cc esc c "next")
  then show ?case
    by (fastforce simp: Let_def split: if_splits list.splits)
qed

lemma skip_comment_shorter:
  "skip_comment st next = Inr (c, next', st') \<Longrightarrow> next \<noteq> [] \<Longrightarrow> length next' < length next"
  using skip_comment_loop_shorter [of st False False False "next" c next' st']
  by (cases "next") (auto simp: skip_comment_def)

definition tok_append :: "token \<Rightarrow> char \<Rightarrow> token" where
  \<comment> \<open>\<^verbatim>\<open>tok += c\<close>\<close>
  "tok_append tok c = tok\<lparr>tok_text := tok_text tok @ [c]\<rparr>"

definition tok_start :: "token \<Rightarrow> char \<Rightarrow> tokenizer \<Rightarrow> token" where
  \<comment> \<open>\<^verbatim>\<open>tok = c; tok.line = line; tok.offset = offset;\<close>\<close>
  "tok_start tok c st = tok\<lparr>tok_text := [c], tok_line := line st, tok_offset := offset st\<rparr>"

function tokenizer_loop ::
  "tokenizer \<Rightarrow> bool \<Rightarrow> bool \<Rightarrow> token \<Rightarrow> string \<Rightarrow> error + (bool \<times> token \<times> string \<times> tokenizer)" where
  "tokenizer_loop st escape is_identifier tok next =
     (if next = [] then Inr (False, tok, next, st)
      else
        (case skip_comment st next of
           Inl e \<Rightarrow> Inl e
         | Inr (c, next', st') \<Rightarrow>
             if c = NUL then Inr (False, tok, next', st')
             else if is_string st' then
               (if c = DQUOTE \<and> \<not> escape then
                  Inr (True, tok_append tok c, next', st'\<lparr>is_string := False\<rparr>)
                else if escape then
                  (if c = BACKSLASH \<or> c = DQUOTE then
                     tokenizer_loop st' False is_identifier (tok_append tok c) next'
                   else if c = CHR ''t'' then
                     tokenizer_loop st' False is_identifier (tok_append tok TAB) next'
                   else if c = CHR ''n'' then
                     tokenizer_loop st' False is_identifier (tok_append tok NEWLINE) next'
                   else Inl (syntax_exception (''Unallowed escape token '' @ [BACKSLASH, c])
                               (mk_token (tok_text tok) (line st') (offset st')) False))
                else if c = BACKSLASH then tokenizer_loop st' True is_identifier tok next'
                else tokenizer_loop st' escape is_identifier (tok_append tok c) next')
             else if c = DQUOTE then
               tokenizer_loop (st'\<lparr>is_string := True\<rparr>) escape is_identifier
                 (tok_start tok c st') next'
             else if is_identifier then
               (if isspace c then Inr (True, tok, next', st')
                else if is_in_set c separators then Inr (True, tok, next', st'\<lparr>tmp_token := [c]\<rparr>)
                else tokenizer_loop st' escape is_identifier (tok_append tok c) next')
             else if is_in_set c separators then Inr (True, tok_start tok c st', next', st')
             else if \<not> isspace c then
               tokenizer_loop st' escape True (tok_start tok c st') next'
             else tokenizer_loop st' escape is_identifier tok next'))"
  by pat_completeness auto
termination
  by (relation "measure (\<lambda>(st, escape, is_identifier, tok, next). length next)")
     (auto dest: skip_comment_shorter)

declare tokenizer_loop.simps [simp del]

definition tokenizer_call ::
  "tokenizer \<Rightarrow> token \<Rightarrow> string \<Rightarrow> error + (bool \<times> token \<times> string \<times> tokenizer)" where
  \<comment> \<open>\<^verbatim>\<open>config_tokenizer::operator()(next, end, tok)\<close>\<close>
  "tokenizer_call st tok next =
     (if tmp_token st \<noteq> [] then
        Inr (True, tok\<lparr>tok_text := tmp_token st, tok_line := line st, tok_offset := offset st\<rparr>,
             next, st\<lparr>tmp_token := []\<rparr>)
      else tokenizer_loop st False False tok next)"

lemma get_tmp_token: "tmp_token (get st c) = tmp_token st"
  by (simp add: get_def Let_def)

lemma skip_comment_loop_tmp_token:
  "skip_comment_loop st sc cc esc next = Inr (c, next', st') \<Longrightarrow> tmp_token st' = tmp_token st"
proof (induction st sc cc esc "next" rule: skip_comment_loop.induct)
  case (1 st sc cc esc)
  then show ?case by simp
next
  case (2 st sc cc esc c "next")
  then show ?case
    by (fastforce simp: Let_def get_tmp_token split: if_splits list.splits)
qed

lemma tokenizer_loop_progress:
  "tokenizer_loop st escape is_identifier tok next = Inr (True, tok', next', st') \<Longrightarrow>
     length next' < length next
     \<and> (tmp_token st' = tmp_token st \<or> length (tmp_token st') = 1)"
proof (induction st escape is_identifier tok "next" rule: tokenizer_loop.induct)
  case (1 st escape is_identifier tok "next")
  show ?case
  proof (cases "next = []")
    case True
    with "1.prems" show ?thesis by (simp add: tokenizer_loop.simps)
  next
    case False
    then obtain c n1 s1 where sk: "skip_comment st next = Inr (c, n1, s1)"
      using "1.prems" by (subst (asm) tokenizer_loop.simps) (auto split: sum.splits)
    have len: "length n1 < length next"
      using skip_comment_shorter [OF sk False] .
    have tmp: "tmp_token s1 = tmp_token st"
      using sk skip_comment_loop_tmp_token by (auto simp: skip_comment_def)
    from "1.prems" False sk
    have res: "(if c = NUL then Inr (False, tok, n1, s1)
             else if is_string s1 then
               (if c = DQUOTE \<and> \<not> escape then
                  Inr (True, tok_append tok c, n1, s1\<lparr>is_string := False\<rparr>)
                else if escape then
                  (if c = BACKSLASH \<or> c = DQUOTE then
                     tokenizer_loop s1 False is_identifier (tok_append tok c) n1
                   else if c = CHR ''t'' then
                     tokenizer_loop s1 False is_identifier (tok_append tok TAB) n1
                   else if c = CHR ''n'' then
                     tokenizer_loop s1 False is_identifier (tok_append tok NEWLINE) n1
                   else Inl (syntax_exception (''Unallowed escape token '' @ [BACKSLASH, c])
                               (mk_token (tok_text tok) (line s1) (offset s1)) False))
                else if c = BACKSLASH then tokenizer_loop s1 True is_identifier tok n1
                else tokenizer_loop s1 escape is_identifier (tok_append tok c) n1)
             else if c = DQUOTE then
               tokenizer_loop (s1\<lparr>is_string := True\<rparr>) escape is_identifier
                 (tok_start tok c s1) n1
             else if is_identifier then
               (if isspace c then Inr (True, tok, n1, s1)
                else if is_in_set c separators then Inr (True, tok, n1, s1\<lparr>tmp_token := [c]\<rparr>)
                else tokenizer_loop s1 escape is_identifier (tok_append tok c) n1)
             else if is_in_set c separators then Inr (True, tok_start tok c s1, n1, s1)
             else if \<not> isspace c then
               tokenizer_loop s1 escape True (tok_start tok c s1) n1
             else tokenizer_loop s1 escape is_identifier tok n1) = Inr (True, tok', next', st')"
      by (subst (asm) tokenizer_loop.simps) simp
    note IH = "1.IH" [OF False sk refl refl]
    show ?thesis
      using res len tmp IH
      by (auto split: if_splits)
  qed
qed

lemma tokenizer_call_progress:
  "tokenizer_call st tok next = Inr (True, tok', next', st') \<Longrightarrow>
     2 * length next' + length (tmp_token st') < 2 * length next + length (tmp_token st)"
proof (cases "tmp_token st = []")
  case True
  assume "tokenizer_call st tok next = Inr (True, tok', next', st')"
  with True have "tokenizer_loop st False False tok next = Inr (True, tok', next', st')"
    by (simp add: tokenizer_call_def)
  from tokenizer_loop_progress [OF this] True show ?thesis by auto
next
  case False
  assume "tokenizer_call st tok next = Inr (True, tok', next', st')"
  with False show ?thesis by (auto simp: tokenizer_call_def)
qed

function token_stream :: "tokenizer \<Rightarrow> token \<Rightarrow> string \<Rightarrow> token list \<times> error option" where
  "token_stream st tok next =
     (case tokenizer_call st tok next of
        Inl e \<Rightarrow> ([], Some e)
      | Inr (valid, tok', next', st') \<Rightarrow>
          if valid then (case token_stream st' tok' next' of (toks, e) \<Rightarrow> (tok' # toks, e))
          else ([], None))"
  by pat_completeness auto
termination
  by (relation "measure (\<lambda>(st, tok, next). 2 * length next + length (tmp_token st))")
     (auto dest: tokenizer_call_progress)

declare token_stream.simps [simp del]

definition tokenize :: "string \<Rightarrow> token list \<times> error option" where
  "tokenize input = (if input = [] then ([], None) else token_stream reset (mk_token [] 0 0) input)"

fun closes :: "bool \<Rightarrow> string \<Rightarrow> bool" where
  "closes escape [] = False"
| "closes escape (c # cs) = (if c = CHR ''/'' \<and> escape then True else closes (c = CHR ''*'') cs)"

section \<open>Include expansion: \<^verbatim>\<open>parser::parse\<close> and \<^verbatim>\<open>parser::include\<close>\<close>

text \<open>
  The file system and the regular-expression engine are collaborators of the library,
  taken as parameters: \<open>fs_read\<close> gives the characters of a file that can be opened
  (an \<^verbatim>\<open>ifstream\<close> that fails to open yields no character and no error), \<open>fs_list\<close> the
  names of the regular files of a directory in the order of \<^verbatim>\<open>directory_iterator\<close>
  (\<open>None\<close> when the directory cannot be opened), \<open>fs_absolute\<close> is
  \<^verbatim>\<open>absolute(p).generic_string()\<close>, and \<open>fs_regex_match name pattern\<close> is
  \<^verbatim>\<open>regex_match(filename, pattern)\<close>.
\<close>

record filesys =
  fs_read :: "string \<Rightarrow> string option"
  fs_list :: "string \<Rightarrow> string list option"
  fs_absolute :: "string \<Rightarrow> string"
  fs_regex_match :: "string \<Rightarrow> string \<Rightarrow> bool"

definition remove_quotes :: "string \<Rightarrow> string" where
  "remove_quotes v =
     (if v \<noteq> [] \<and> v ! 0 = DQUOTE \<and> length v > 2 then take (length v - 2) (drop 1 v) else v)"

definition construct_path :: "string \<Rightarrow> string \<Rightarrow> error + string" where
  "construct_path filename include_dir =
     (if filename = [] then Inl (InvalidArgument ''Filename is empty'')
      else if filename ! 0 = CHR ''/'' then Inr filename
      else Inr (include_dir @ ''/'' @ filename))"

fun syntax_exception_in :: "error \<Rightarrow> string \<Rightarrow> error" where
  \<comment> \<open>\<^verbatim>\<open>catch(ParseException& ex) { throw _syntax_exception(ex, m_file.get()); }\<close>\<close>
  "syntax_exception_in (ParseException what f l off) file = ParseException what file l off"
| "syntax_exception_in e file = e"

text \<open>
  A \<^verbatim>\<open>parser\<close> reads the tokens of its file one at a time; the tokens of an included
  file come from a new \<^verbatim>\<open>parser\<close>, which \<^verbatim>\<open>include\<close> constructs and runs before it
  returns. Nothing bounds this nesting (\<^verbatim>\<open>m_deep_level\<close> is passed on, incremented, and
  never read), so the model takes fuel: the first argument bounds the nesting of
  parsers, and \<open>None\<close> says that the fuel did not suffice.

  \<open>parser_parse\<close> is the constructor followed by \<^verbatim>\<open>parse()\<close>. The constructor reads
  the first token, outside the \<^verbatim>\<open>try\<close> block of \<^verbatim>\<open>parse\<close>; \<^verbatim>\<open>*it++\<close> reads the next
  token before the current one is used, inside it. The token stream of the file is
  computed first (\<open>tokenize\<close>): the list of tokens and the exception that ends it, if any.
\<close>

function parser_parse :: "nat \<Rightarrow> filesys \<Rightarrow> string \<Rightarrow> nat \<Rightarrow> string \<Rightarrow> (error + token list) option"
and parse_loop :: "nat \<Rightarrow> filesys \<Rightarrow> string \<Rightarrow> nat \<Rightarrow> string \<Rightarrow> bool \<Rightarrow> token list
      \<Rightarrow> error option \<Rightarrow> token list \<Rightarrow> (error + token list) option"
and parser_include :: "nat \<Rightarrow> filesys \<Rightarrow> string \<Rightarrow> nat \<Rightarrow> string \<Rightarrow> (error + token list) option"
and include_files :: "nat \<Rightarrow> filesys \<Rightarrow> string \<Rightarrow> nat \<Rightarrow> string list \<Rightarrow> token list
      \<Rightarrow> (error + token list) option" where
  "parser_parse 0 fs include_dir level file = None"
| "parser_parse (Suc n) fs include_dir level file =
     (case tokenize (case fs_read fs file of Some s \<Rightarrow> s | None \<Rightarrow> []) of
        ([], Some e) \<Rightarrow> Some (Inl e)
      | (toks, err) \<Rightarrow> parse_loop n fs include_dir level file False toks err [])"
| "parse_loop n fs include_dir level file is_include [] err tokens = Some (Inr tokens)"
| "parse_loop n fs include_dir level file is_include (t # rest) err tokens =
     (case (rest, err) of
        ([], Some e) \<Rightarrow> Some (Inl (syntax_exception_in e file))
      | _ \<Rightarrow>
         (let tok = t\<lparr>tok_file := Some file\<rparr> in
          if is_include then
            (case parser_include n fs include_dir level (tok_text tok) of
               None \<Rightarrow> None
             | Some (Inl e) \<Rightarrow> Some (Inl (syntax_exception_in e file))
             | Some (Inr ts) \<Rightarrow>
                 parse_loop n fs include_dir level file False rest err (tokens @ ts))
          else if tok_text tok = ''@include'' then
            parse_loop n fs include_dir level file True rest err tokens
          else parse_loop n fs include_dir level file is_include rest err (tokens @ [tok])))"
| "parser_include n fs include_dir level path0 =
     (case construct_path (remove_quotes path0) include_dir of
        Inl e \<Rightarrow> Some (Inl e)
      | Inr p \<Rightarrow>
         (case find_last_of p CHR ''/'' of
            None \<Rightarrow> include_files n fs include_dir level [p] []
          | Some delimiter \<Rightarrow>
              if delimiter + 1 < length p then
                (let directory = take delimiter p;
                     pattern = ''^'' @ drop (delimiter + 1) p @ ''$''
                 in case fs_list fs directory of
                      None \<Rightarrow> Some (Inl (FilesystemError directory))
                    | Some names \<Rightarrow>
                        include_files n fs include_dir level
                          (map (\<lambda>name. fs_absolute fs (directory @ ''/'' @ name))
                             (filter (\<lambda>name. fs_regex_match fs name pattern) names)) [])
              else Some (Inl (FileIOException (''Can'' @ [CHR 0x27] @ ''f find file '' @ p)))))"
| "include_files n fs include_dir level [] tokens = Some (Inr tokens)"
| "include_files n fs include_dir level (f # files) tokens =
     (case parser_parse n fs include_dir (level + 1) f of
        None \<Rightarrow> None
      | Some (Inl e) \<Rightarrow> Some (Inl e)
      | Some (Inr ts) \<Rightarrow> include_files n fs include_dir level files (tokens @ ts))"
  by pat_completeness auto
termination
  by (relation "measures
        [case_sum (case_sum (\<lambda>(n, _). n) (\<lambda>(n, _). n)) (case_sum (\<lambda>(n, _). n) (\<lambda>(n, _). n)),
         case_sum (case_sum (\<lambda>_. 0) (\<lambda>_. 3)) (case_sum (\<lambda>_. 2) (\<lambda>_. Suc 0)),
         case_sum
           (case_sum (\<lambda>_. 0) (\<lambda>(n, fs, d, level, file, is_include, toks, _). length toks))
           (case_sum (\<lambda>_. 0) (\<lambda>(n, fs, d, level, files, _). length files))]")
     auto

declare parser_parse.simps [simp del] parse_loop.simps [simp del] parser_include.simps [simp del]
  include_files.simps [simp del]

definition literal_regex_match :: "string \<Rightarrow> string \<Rightarrow> bool" where
  "literal_regex_match name pattern = (pattern = ''^'' @ name @ ''$'')"

definition self_include_fs :: filesys where
  "self_include_fs =
     \<lparr> fs_read = (\<lambda>p. if p = ''/d/a.cfg''
                       then Some (''@include '' @ [DQUOTE] @ ''a.cfg'' @ [DQUOTE] @ [NEWLINE])
                       else None),
       fs_list = (\<lambda>d. if d = ''/d'' then Some [''a.cfg''] else None),
       fs_absolute = (\<lambda>p. p),
       fs_regex_match = literal_regex_match \<rparr>"

definition two_files_fs :: filesys where
  "two_files_fs =
     \<lparr> fs_read = (\<lambda>p. if p = ''/d/a.cfg''
                       then Some (''@include '' @ [DQUOTE] @ ''b.cfg'' @ [DQUOTE] @ [NEWLINE] @ ''v = 2;'')
                     else if p = ''/d/b.cfg'' then Some ''u = 1;''
                     else None),
       fs_list = (\<lambda>d. if d = ''/d'' then Some [''a.cfg'', ''b.cfg''] else None),
       fs_absolute = (\<lambda>p. p),
       fs_regex_match = literal_regex_match \<rparr>"

fun error_offset :: "error \<Rightarrow> nat option" where
  "error_offset (ParseException what f l off) = Some off"
| "error_offset _ = None"

section \<open>Scalar literals\<close>

text \<open>
  The regular expressions of \<^verbatim>\<open>_get_scalar_type\<close>, each as a recogniser of the whole
  token (\<^verbatim>\<open>regex_match\<close> matches the whole string).
\<close>

definition is_xdigit :: "char \<Rightarrow> bool" where
  "is_xdigit c = (is_digit c \<or> (65 \<le> (of_char c :: nat) \<and> (of_char c :: nat) \<le> 70)
                  \<or> (97 \<le> (of_char c :: nat) \<and> (of_char c :: nat) \<le> 102))"

definition xdigit_val :: "char \<Rightarrow> nat" where
  "xdigit_val c = (if is_digit c then of_char c - 48
                   else if 97 \<le> (of_char c :: nat) then of_char c - 87 else of_char c - 55)"

definition opt_sign :: "string \<Rightarrow> string" where
  \<comment> \<open>what is left after \<^verbatim>\<open>[-+]?\<close>\<close>
  "opt_sign s = (case s of [] \<Rightarrow> [] | c # r \<Rightarrow> if c = CHR ''-'' \<or> c = CHR ''+'' then r else s)"

fun ci_match :: "string \<Rightarrow> string \<Rightarrow> bool" where
  \<comment> \<open>a sequence of classes \<^verbatim>\<open>[Xx]\<close>, given by its lower-case letters\<close>
  "ci_match [] [] = True"
| "ci_match (c # cs) (p # ps) = ((c = p \<or> (of_char c :: nat) + 32 = of_char p) \<and> ci_match cs ps)"
| "ci_match _ _ = False"

definition rx_boolean :: "string \<Rightarrow> bool" where
  "rx_boolean s = (ci_match s ''true'' \<or> ci_match s ''false'')"

definition rx_int :: "string \<Rightarrow> bool" where
  "rx_int s = (opt_sign s \<noteq> [] \<and> list_all is_digit (opt_sign s))"

definition long_suffix :: "string \<Rightarrow> bool" where
  \<comment> \<open>\<^verbatim>\<open>L(L)?$\<close>\<close>
  "long_suffix r = (r = ''L'' \<or> r = ''LL'')"

definition rx_int64 :: "string \<Rightarrow> bool" where
  "rx_int64 s = (takeWhile is_digit (opt_sign s) \<noteq> []
                 \<and> long_suffix (dropWhile is_digit (opt_sign s)))"

definition hex_prefix :: "string \<Rightarrow> bool" where
  \<comment> \<open>\<^verbatim>\<open>^0[Xx]\<close>\<close>
  "hex_prefix s = (case s of
       c0 # c1 # r \<Rightarrow> c0 = CHR ''0'' \<and> (c1 = CHR ''X'' \<or> c1 = CHR ''x'')
     | _ \<Rightarrow> False)"

definition rx_hex :: "string \<Rightarrow> bool" where
  "rx_hex s = (hex_prefix s \<and> drop 2 s \<noteq> [] \<and> list_all is_xdigit (drop 2 s))"

definition rx_hex64 :: "string \<Rightarrow> bool" where
  "rx_hex64 s = (hex_prefix s \<and> takeWhile is_xdigit (drop 2 s) \<noteq> []
                 \<and> long_suffix (dropWhile is_xdigit (drop 2 s)))"

definition exponent_part :: "string \<Rightarrow> bool" where
  \<comment> \<open>\<^verbatim>\<open>[eE][-+]?[0-9]+\<close> up to the end\<close>
  "exponent_part r = (case r of
       [] \<Rightarrow> False
     | c # r' \<Rightarrow> (c = CHR ''e'' \<or> c = CHR ''E'') \<and> rx_int r')"

definition rx_float :: "string \<Rightarrow> bool" where
  "rx_float s =
     ((case dropWhile is_digit (opt_sign s) of
         [] \<Rightarrow> False
       | c # r1 \<Rightarrow> c = CHR ''.''
           \<and> (dropWhile is_digit r1 = [] \<or> exponent_part (dropWhile is_digit r1)))
      \<or> (takeWhile is_digit (opt_sign s) \<noteq> []
          \<and> exponent_part
               (case dropWhile is_digit (opt_sign s) of
                  [] \<Rightarrow> []
                | c # r1 \<Rightarrow> if c = CHR ''.'' then dropWhile is_digit r1 else c # r1)))"

definition get_scalar_type :: "string \<Rightarrow> Type" where
  "get_scalar_type v =
     (if (case v of [] \<Rightarrow> False | c # _ \<Rightarrow> c = DQUOTE) then TypeString
      else if rx_boolean v then TypeBoolean
      else if rx_int v then TypeInt
      else if rx_hex v then TypeInt
      else if rx_int64 v then TypeInt64
      else if rx_hex64 v then TypeInt64
      else if rx_float v then TypeFloat
      else TypeGroup)"

subsection \<open>Stream extraction\<close>

text \<open>
  \<^verbatim>\<open>iss >> v\<close> on an \<^verbatim>\<open>istringstream\<close> over the token, for \<^verbatim>\<open>bool\<close>, \<^verbatim>\<open>int\<close> and
  \<^verbatim>\<open>long\<close>, after \<^verbatim>\<open>iss >> hex\<close> when \<open>hex\<close> is set. \<open>extract_value\<close> is the number
  the characters denote: an optional sign, an optional \<^verbatim>\<open>0x\<close> in base 16, then the
  digits; \<open>None\<close> when there is no digit. The value stored follows C++11
  (\<^verbatim>\<open>num_get\<close>): zero when nothing was converted, the nearest bound of the type when
  the number is out of range, and for \<^verbatim>\<open>bool\<close> (the stream has no \<^verbatim>\<open>boolalpha\<close>)
  false for 0 and true for every other number. The failure bit the stream sets in
  these cases is never tested by the source. \<^verbatim>\<open>iss >> v\<close> for a \<^verbatim>\<open>float\<close> is the
  parameter \<open>float_read\<close>, and \<^verbatim>\<open>o << v\<close> is \<open>float_show\<close>.
\<close>

record 'f float_io =
  float_read :: "string \<Rightarrow> 'f"
  float_show :: "'f \<Rightarrow> string"

definition extract_value :: "bool \<Rightarrow> string \<Rightarrow> int option" where
  "extract_value hex s =
     (let r = opt_sign s;
          r' = (if hex \<and> hex_prefix r then drop 2 r else r);
          ds = (if hex then takeWhile is_xdigit r' else takeWhile is_digit r');
          n = (if hex then foldl (\<lambda>acc c. 16 * acc + xdigit_val c) 0 ds
               else foldl (\<lambda>acc c. 10 * acc + digit_val c) 0 ds)
      in if ds = [] then None
         else if (case s of [] \<Rightarrow> False | c # _ \<Rightarrow> c = CHR ''-'') then Some (- int n)
         else Some (int n))"

definition extract_bool :: "string \<Rightarrow> bool" where
  "extract_bool s = (case extract_value False s of None \<Rightarrow> False | Some v \<Rightarrow> v \<noteq> 0)"

definition extract_int :: "bool \<Rightarrow> string \<Rightarrow> 32 word" where
  "extract_int hex s =
     (case extract_value hex s of
        None \<Rightarrow> 0
      | Some v \<Rightarrow> if v > 2147483647 then 2147483647
                  else if v < - 2147483648 then - 2147483648
                  else word_of_int v)"

definition extract_long :: "bool \<Rightarrow> string \<Rightarrow> 64 word" where
  "extract_long hex s =
     (case extract_value hex s of
        None \<Rightarrow> 0
      | Some v \<Rightarrow> if v > 9223372036854775807 then 9223372036854775807
                  else if v < - 9223372036854775808 then - 9223372036854775808
                  else word_of_int v)"

section \<open>Assignment and construction\<close>

fun assignValue_bool :: "bool \<Rightarrow> 'f scalar \<Rightarrow> error + 'f scalar" where
  "assignValue_bool v (SBool _) = Inr (SBool v)"
| "assignValue_bool v (SInt _) = Inr (SInt 1)"
| "assignValue_bool v (SInt64 _) = Inr (SInt64 1)"
| "assignValue_bool v _ = Inl (type_ex ''Conversion not possible'')"

fun assignValue_int :: "('f, 'd) float_ops \<Rightarrow> 32 word \<Rightarrow> 'f scalar \<Rightarrow> error + 'f scalar" where
  "assignValue_int ops v (SBool _) = Inr (SBool (v \<noteq> 0))"
| "assignValue_int ops v (SInt _) = Inr (SInt v)"
| "assignValue_int ops v (SInt64 _) = Inr (SInt64 (scast v))"
| "assignValue_int ops v (SFloat _) = Inr (SFloat (float_of_long ops (scast v)))"
| "assignValue_int ops v _ = Inl (type_ex ''Conversion not possible'')"

fun assignValue_long :: "('f, 'd) float_ops \<Rightarrow> 64 word \<Rightarrow> 'f scalar \<Rightarrow> error + 'f scalar" where
  "assignValue_long ops v (SBool _) = Inr (SBool (v \<noteq> 0))"
| "assignValue_long ops v (SInt _) = Inr (SInt (ucast v))"
| "assignValue_long ops v (SInt64 _) = Inr (SInt64 v)"
| "assignValue_long ops v (SFloat _) = Inr (SFloat (float_of_long ops v))"
| "assignValue_long ops v _ = Inl (type_ex ''Conversion not possible'')"

fun assignValue_float :: "('f, 'd) float_ops \<Rightarrow> 'f \<Rightarrow> 'f scalar \<Rightarrow> error + 'f scalar" where
  "assignValue_float ops v (SInt _) = Inr (SInt (int_of_float ops v))"
| "assignValue_float ops v (SInt64 _) = Inr (SInt64 (long_of_float ops v))"
| "assignValue_float ops v (SFloat _) = Inr (SFloat v)"
| "assignValue_float ops v _ = Inl (type_ex ''Conversion not possible'')"

fun assignValue_string :: "string \<Rightarrow> 'f scalar \<Rightarrow> error + 'f scalar" where
  "assignValue_string v (SString _) = Inr (SString v)"
| "assignValue_string v _ = Inl (type_ex ''Conversion not possible'')"

definition assign :: "('f scalar \<Rightarrow> error + 'f scalar) \<Rightarrow> 'f setting \<Rightarrow> error + 'f setting" where
  \<comment> \<open>\<^verbatim>\<open>basic_setting::operator=(T)\<close>: the virtual \<^verbatim>\<open>assignValue\<close> of the value, which the
      aggregate classes inherit from the base class\<close>
  "assign assignValue s =
     (case m_value s of
        Scalar sc f \<Rightarrow>
          (case assignValue sc of
             Inl e \<Rightarrow> Inl e
           | Inr sc' \<Rightarrow> Inr (Setting (m_name s) (Scalar sc' f)))
      | _ \<Rightarrow> Inl (type_ex ''converion not supported''))"

definition setFormat :: "Format \<Rightarrow> 'f setting \<Rightarrow> 'f setting" where
  "setFormat f s =
     (case m_value s of
        Scalar sc _ \<Rightarrow> Setting (m_name s) (Scalar sc f)
      | _ \<Rightarrow> s)"

fun new_setting :: "('f, 'd) float_ops \<Rightarrow> string \<Rightarrow> Type \<Rightarrow> 'f setting" where
  \<comment> \<open>the constructor \<^verbatim>\<open>basic_setting(name, type)\<close>; \<^verbatim>\<open>T()\<close> of \<^verbatim>\<open>float\<close> is the float of 0\<close>
  "new_setting ops name TypeBoolean = Setting name (Scalar (SBool False) FormatDefault)"
| "new_setting ops name TypeInt = Setting name (Scalar (SInt 0) FormatDefault)"
| "new_setting ops name TypeInt64 = Setting name (Scalar (SInt64 0) FormatDefault)"
| "new_setting ops name TypeFloat = Setting name (Scalar (SFloat (float_of_long ops 0)) FormatDefault)"
| "new_setting ops name TypeString = Setting name (Scalar (SString []) FormatDefault)"
| "new_setting ops name TypeArray = Setting name (SettingArray [])"
| "new_setting ops name TypeList = Setting name (SettingList [])"
| "new_setting ops name TypeGroup = Setting name (SettingContainer [])"

definition setting_add :: "'f setting \<Rightarrow> 'f setting \<Rightarrow> error + 'f setting" where
  \<comment> \<open>\<^verbatim>\<open>basic_setting::add(setting)\<close>\<close>
  "setting_add s v =
     (case add (m_value s) v of
        Inl e \<Rightarrow> Inl e
      | Inr v' \<Rightarrow> Inr (Setting (m_name s) v'))"

fun add_all :: "'f setting \<Rightarrow> 'f setting list \<Rightarrow> error + 'f setting" where
  \<comment> \<open>\<^verbatim>\<open>for (i...) result.add(settings[i]);\<close>\<close>
  "add_all result [] = Inr result"
| "add_all result (s # settings) =
     (case setting_add result s of
        Inl e \<Rightarrow> Inl e
      | Inr result' \<Rightarrow> add_all result' settings)"

section \<open>The grammar\<close>

definition get_scalar_item ::
  "('f, 'd) float_ops \<Rightarrow> 'f float_io \<Rightarrow> string \<Rightarrow> token \<Rightarrow> error + 'f setting" where
  "get_scalar_item ops io name v =
     (let ty = get_scalar_type (tok_text v);
          setting = new_setting ops name ty
      in case ty of
           TypeString \<Rightarrow> assign (assignValue_string (remove_quotes (tok_text v))) setting
         | TypeBoolean \<Rightarrow> assign (assignValue_bool (extract_bool (tok_text v))) setting
         | TypeInt \<Rightarrow>
             if rx_hex (tok_text v)
             then assign (assignValue_int ops (extract_int True (tok_text v)))
                    (setFormat FormatHex setting)
             else assign (assignValue_int ops (extract_int False (tok_text v))) setting
         | TypeInt64 \<Rightarrow>
             if rx_hex64 (tok_text v)
             then assign (assignValue_long ops (extract_long True (tok_text v)))
                    (setFormat FormatHex setting)
             else assign (assignValue_long ops (extract_long False (tok_text v))) setting
         | TypeFloat \<Rightarrow> assign (assignValue_float ops (float_read io (tok_text v))) setting
         | _ \<Rightarrow> Inl (syntax_exception (''invalid value '' @ tok_text v) v False))"

definition skip_end :: "token list \<Rightarrow> token list" where
  "skip_end begin =
     (case begin of
        [] \<Rightarrow> []
      | t # r \<Rightarrow> if tok_text t = '';'' \<or> tok_text t = '','' then r else begin)"

fun find_pair_loop :: "string \<Rightarrow> string \<Rightarrow> 64 word \<Rightarrow> token list \<Rightarrow> nat \<Rightarrow> nat option" where
  "find_pair_loop open_token close_token count [] i = None"
| "find_pair_loop open_token close_token count (tok # rest) i =
     (if tok_text tok = open_token then
        find_pair_loop open_token close_token (count + 1) rest (i + 1)
      else if tok_text tok = close_token then
        (if count = 1 then Some i
         else find_pair_loop open_token close_token (count - 1) rest (i + 1))
      else find_pair_loop open_token close_token count rest (i + 1))"

definition find_pair :: "string \<Rightarrow> string \<Rightarrow> token \<Rightarrow> token list \<Rightarrow> error + nat" where
  \<comment> \<open>the range is \<open>b # rest\<close>; the result is the index in it of the closing token\<close>
  "find_pair open_token close_token b rest =
     (case find_pair_loop open_token close_token 0 (b # rest) 0 of
        Some i \<Rightarrow> Inr i
      | None \<Rightarrow> Inl (syntax_exception (''unable to find closing tag of '' @ tok_text b) b False))"

fun find_list_item_loop :: "nat \<Rightarrow> nat \<Rightarrow> nat \<Rightarrow> token list \<Rightarrow> nat \<Rightarrow> error + nat" where
  "find_list_item_loop a_brace g_brace l_brace [] i = Inr i"
| "find_list_item_loop a_brace g_brace l_brace (tok # rest) i =
     (if tok_text tok = ''['' then find_list_item_loop (a_brace + 1) g_brace l_brace rest (i + 1)
      else if tok_text tok = '']'' then
        (if a_brace = 0 then Inl (syntax_exception ''unmatched array brace'' tok False)
         else find_list_item_loop (a_brace - 1) g_brace l_brace rest (i + 1))
      else if tok_text tok = ''{'' then find_list_item_loop a_brace (g_brace + 1) l_brace rest (i + 1)
      else if tok_text tok = ''}'' then
        (if g_brace = 0 then Inl (syntax_exception ''unmatched group brace'' tok False)
         else find_list_item_loop a_brace (g_brace - 1) l_brace rest (i + 1))
      else if tok_text tok = ''('' then find_list_item_loop a_brace g_brace (l_brace + 1) rest (i + 1)
      else if tok_text tok = '')'' then
        (if l_brace = 0 then Inl (syntax_exception ''unmatched list brace'' tok False)
         else find_list_item_loop a_brace g_brace (l_brace - 1) rest (i + 1))
      else if tok_text tok = '','' \<and> a_brace = 0 \<and> g_brace = 0 \<and> l_brace = 0 then Inr i
      else find_list_item_loop a_brace g_brace l_brace rest (i + 1))"

definition find_list_item :: "token list \<Rightarrow> error + nat" where
  "find_list_item toks = find_list_item_loop 0 0 0 toks 0"

text \<open>
  The recursive descent. A range of iterators \<^verbatim>\<open>[begin, end)\<close> is the list of its
  tokens; a function that advances \<^verbatim>\<open>begin\<close> returns the rest of the range. Where the
  source reads \<^verbatim>\<open>*begin\<close> of a range its caller has checked to hold a token
  (\<^verbatim>\<open>_get_group\<close>, \<^verbatim>\<open>_get_list\<close>, \<^verbatim>\<open>_get_array\<close>, \<^verbatim>\<open>_get_list_item\<close>), the model takes
  that token \<open>b\<close> and the tokens \<open>rest\<close> after it.

  \<open>get_setting_list\<close> goes on with the range that \<open>get_setting\<close> returns. That range
  is never longer than the one passed in (\<open>get_setting_rest\<close> below), which is what
  the test before the recursive call says; it is there for the termination proof, and
  its other branch is never taken.
\<close>

lemma take_Cons_shorter: "take j xs = y # ys \<Longrightarrow> length ys < length xs"
  by (metis length_Cons length_take lessI min.strict_boundedE min_less_iff_conj not_less_eq
      linorder_not_less min.cobounded2 order_less_le_trans)

function get_setting_list ::
    "('f, 'd) float_ops \<Rightarrow> 'f float_io \<Rightarrow> token list \<Rightarrow> error + 'f setting list"
and get_setting ::
    "('f, 'd) float_ops \<Rightarrow> 'f float_io \<Rightarrow> token \<Rightarrow> token list \<Rightarrow> error + ('f setting \<times> token list)"
and get_group ::
    "('f, 'd) float_ops \<Rightarrow> 'f float_io \<Rightarrow> string \<Rightarrow> token \<Rightarrow> token list
       \<Rightarrow> error + ('f setting \<times> token list)"
and get_list ::
    "('f, 'd) float_ops \<Rightarrow> 'f float_io \<Rightarrow> string \<Rightarrow> token \<Rightarrow> token list
       \<Rightarrow> error + ('f setting \<times> token list)"
and get_array ::
    "('f, 'd) float_ops \<Rightarrow> 'f float_io \<Rightarrow> string \<Rightarrow> token \<Rightarrow> token list
       \<Rightarrow> error + ('f setting \<times> token list)"
and list_loop ::
    "('f, 'd) float_ops \<Rightarrow> 'f float_io \<Rightarrow> 'f setting \<Rightarrow> token list \<Rightarrow> error + 'f setting"
and get_list_item ::
    "('f, 'd) float_ops \<Rightarrow> 'f float_io \<Rightarrow> token \<Rightarrow> token list \<Rightarrow> error + 'f setting"
where
  "get_setting_list ops io [] = Inr []"
| "get_setting_list ops io (tok # begin) =
     (if tok_text tok = ''['' \<or> tok_text tok = '']'' then
        Inl (syntax_exception ''unexpected array'' tok False)
      else if tok_text tok = ''{'' \<or> tok_text tok = ''}'' then
        Inl (syntax_exception ''unexpected group setting without identifier'' tok False)
      else if tok_text tok = '','' \<or> tok_text tok = ''='' \<or> tok_text tok = '':'' then
        Inl (syntax_exception (''unexpected token '' @ tok_text tok) tok False)
      else
        (case get_setting ops io tok begin of
           Inl e \<Rightarrow> Inl e
         | Inr (s, begin') \<Rightarrow>
             if length begin' \<le> length begin then
               (case get_setting_list ops io begin' of
                  Inl e \<Rightarrow> Inl e
                | Inr settings \<Rightarrow> Inr (s # settings))
             else Inl (ConfigException ''not reached'')))"
| "get_setting ops io identifier [] =
     Inl (syntax_exception ''unexpected end of file'' identifier True)"
| "get_setting ops io identifier (tok # begin) =
     (if tok_text tok = ''='' \<or> tok_text tok = '':'' then
        (case begin of
           [] \<Rightarrow> Inl (syntax_exception ''unexpected end of file'' tok True)
         | b # rest \<Rightarrow>
             if tok_text b = ''{'' then
               (case get_group ops io (tok_text identifier) b rest of
                  Inl e \<Rightarrow> Inl e
                | Inr (result, begin') \<Rightarrow> Inr (result, skip_end begin'))
             else if tok_text b = ''('' then
               (case get_list ops io (tok_text identifier) b rest of
                  Inl e \<Rightarrow> Inl e
                | Inr (result, begin') \<Rightarrow> Inr (result, skip_end begin'))
             else if tok_text b = ''['' then
               (case get_array ops io (tok_text identifier) b rest of
                  Inl e \<Rightarrow> Inl e
                | Inr (result, begin') \<Rightarrow> Inr (result, skip_end begin'))
             else
               (case get_scalar_item ops io (tok_text identifier) b of
                  Inl e \<Rightarrow> Inl e
                | Inr result \<Rightarrow> Inr (result, skip_end rest)))
      else Inl (syntax_exception (''unexpected token '' @ tok_text tok) tok False))"
| "get_group ops io identifier b rest =
     (case find_pair ''{'' ''}'' b rest of
        Inl e \<Rightarrow> Inl e
      | Inr k \<Rightarrow>
          (case get_setting_list ops io (take (k - 1) rest) of
             Inl e \<Rightarrow> Inl e
           | Inr settings \<Rightarrow>
               (case add_all (new_setting ops identifier TypeGroup) settings of
                  Inl e \<Rightarrow> Inl e
                | Inr result \<Rightarrow> Inr (result, drop k rest))))"
| "get_list ops io identifier b rest =
     (case find_pair ''('' '')'' b rest of
        Inl e \<Rightarrow> Inl e
      | Inr k \<Rightarrow>
          (case list_loop ops io (new_setting ops identifier TypeList) (take k (b # rest)) of
             Inl e \<Rightarrow> Inl e
           | Inr l \<Rightarrow> Inr (l, drop k rest)))"
| "get_array ops io identifier b rest =
     (case find_pair ''['' '']'' b rest of
        Inl e \<Rightarrow> Inl e
      | Inr k \<Rightarrow>
          (case list_loop ops io (new_setting ops identifier TypeArray) (take k (b # rest)) of
             Inl e \<Rightarrow> Inl e
           | Inr a \<Rightarrow> Inr (a, drop k rest)))"
| "list_loop ops io l [] = Inr l"
| "list_loop ops io l (x # r1) =
     (case find_list_item r1 of
        Inl e \<Rightarrow> Inl e
      | Inr j \<Rightarrow>
          (case take j r1 of
             [] \<Rightarrow> list_loop ops io l (drop j r1)
           | b # rest \<Rightarrow>
               (case get_list_item ops io b rest of
                  Inl e \<Rightarrow> Inl e
                | Inr item \<Rightarrow>
                    (case setting_add l item of
                       Inl e \<Rightarrow> Inl e
                     | Inr l' \<Rightarrow> list_loop ops io l' (drop j r1)))))"
| "get_list_item ops io b rest =
     (if tok_text b = ''('' then map_sum id fst (get_list ops io [] b rest)
      else if tok_text b = ''{'' then map_sum id fst (get_group ops io [] b rest)
      else if tok_text b = ''['' then map_sum id fst (get_array ops io [] b rest)
      else get_scalar_item ops io [] b)"
  by pat_completeness auto
termination
  by (relation "measure
        (case_sum
           (case_sum (\<lambda>(ops, io, toks). 3 * length toks)
              (case_sum (\<lambda>(ops, io, identifier, begin). 3 * length begin)
                 (\<lambda>(ops, io, identifier, b, rest). 3 * (1 + length rest))))
           (case_sum
              (case_sum (\<lambda>(ops, io, identifier, b, rest). 3 * (1 + length rest) + 1)
                 (\<lambda>(ops, io, identifier, b, rest). 3 * (1 + length rest) + 1))
              (case_sum (\<lambda>(ops, io, l, r). 3 * length r)
                 (\<lambda>(ops, io, b, rest). 3 * (1 + length rest) + 2))))")
     (auto dest: take_Cons_shorter simp: min_def)

declare get_setting_list.simps [simp del] get_setting.simps [simp del] get_group.simps [simp del]
  get_list.simps [simp del] get_array.simps [simp del] list_loop.simps [simp del]
  get_list_item.simps [simp del]

fun concat_string_loop :: "token \<Rightarrow> token list \<Rightarrow> token list" where
  \<comment> \<open>\<open>prev\<close> is \<^verbatim>\<open>result.back()\<close>; the tokens before it are already in the result\<close>
  "concat_string_loop prev [] = [prev]"
| "concat_string_loop prev (cur # rest) =
     (if (case tok_text prev of [] \<Rightarrow> False | c # _ \<Rightarrow> c = DQUOTE)
         \<and> (case tok_text cur of [] \<Rightarrow> False | c # _ \<Rightarrow> c = DQUOTE)
      then concat_string_loop
             (prev\<lparr>tok_text := take (length (tok_text prev) - 1) (tok_text prev)
                                  @ drop 1 (tok_text cur)\<rparr>) rest
      else prev # concat_string_loop cur rest)"

definition concat_string :: "token \<Rightarrow> token list \<Rightarrow> token list" where
  \<comment> \<open>\<^verbatim>\<open>_concat_string\<close> of the tokens \<open>front # tokens\<close>\<close>
  "concat_string front tokens = concat_string_loop front tokens"

definition read_file ::
  "nat \<Rightarrow> filesys \<Rightarrow> ('f, 'd) float_ops \<Rightarrow> 'f float_io \<Rightarrow> string \<Rightarrow> string
     \<Rightarrow> (error + 'f setting) option" where
  \<comment> \<open>\<^verbatim>\<open>_read_file(path, include_dir)\<close>, with the fuel of its \<^verbatim>\<open>parser\<close>\<close>
  "read_file fuel fs ops io path include_dir =
     (case construct_path path include_dir of
        Inl e \<Rightarrow> Some (Inl e)
      | Inr p \<Rightarrow>
          (case parser_parse fuel fs include_dir 0 p of
             None \<Rightarrow> None
           | Some (Inl e) \<Rightarrow> Some (Inl e)
           | Some (Inr tokens) \<Rightarrow>
               (case tokens of
                  [] \<Rightarrow> Some (Inr (new_setting ops [] TypeGroup))
                | front # ts \<Rightarrow>
                    (case get_setting_list ops io (concat_string front ts) of
                       Inl e \<Rightarrow> Some (Inl e)
                     | Inr settings \<Rightarrow>
                         Some (add_all (new_setting ops [] TypeGroup) settings)))))"

text \<open>
  Reading a configuration from a text: the file \<^verbatim>\<open>/cfg\<close> holds the text and is the
  only file. One unit of fuel is the one \<^verbatim>\<open>parser\<close> of a text with no include.
\<close>

definition one_file_fs :: "string \<Rightarrow> filesys" where
  "one_file_fs content =
     \<lparr> fs_read = (\<lambda>p. if p = ''/cfg'' then Some content else None),
       fs_list = (\<lambda>d. if d = [] then Some [''cfg''] else None),
       fs_absolute = (\<lambda>p. p),
       fs_regex_match = literal_regex_match \<rparr>"

definition parse_text ::
  "('f, 'd) float_ops \<Rightarrow> 'f float_io \<Rightarrow> string \<Rightarrow> (error + 'f setting) option" where
  "parse_text ops io content = read_file (Suc 0) (one_file_fs content) ops io ''/cfg'' []"

section \<open>The printer\<close>

definition hex_digit_char :: "nat \<Rightarrow> char" where
  "hex_digit_char n = (if n < 10 then char_of (48 + n) else char_of (87 + n))"

function show_hex :: "nat \<Rightarrow> string" where
  "show_hex n = (if n < 16 then [hex_digit_char n]
                 else show_hex (n div 16) @ [hex_digit_char (n mod 16)])"
  by pat_completeness auto
termination
  by (relation "measure id") auto

declare show_hex.simps [simp del]

definition show_int :: "int \<Rightarrow> string" where
  "show_int i = (if i < 0 then CHR ''-'' # show_nat (nat (- i)) else show_nat (nat i))"

fun intercalate :: "'a list \<Rightarrow> 'a list list \<Rightarrow> 'a list" where
  "intercalate sep [] = []"
| "intercalate sep [x] = x"
| "intercalate sep (x # y # ys) = x @ sep @ intercalate sep (y # ys)"

definition print_scalar :: "'f float_io \<Rightarrow> 'f scalar \<Rightarrow> Format \<Rightarrow> string" where
  \<comment> \<open>\<^verbatim>\<open>_basic_setting_scalar<T>::print\<close>; \<^verbatim>\<open>std::hex\<close> writes an integer as the unsigned
      value of its bits, and a \<^verbatim>\<open>bool\<close> is written as 1 or 0 (no \<^verbatim>\<open>boolalpha\<close>)\<close>
  "print_scalar io sc fmt =
     (let ty = deduce_scalar_type sc;
          hex = ((ty = TypeInt \<or> ty = TypeInt64) \<and> fmt = FormatHex)
      in (if hex then ''0x'' else [])
         @ (case sc of
              SInt64 v \<Rightarrow> (if hex then show_hex (unat v) else show_int (sint v)) @ ''L''
            | SString v \<Rightarrow> [DQUOTE] @ v @ [DQUOTE]
            | SInt v \<Rightarrow> (if hex then show_hex (unat v) else show_int (sint v))
            | SBool v \<Rightarrow> (if v then ''1'' else ''0'')
            | SFloat v \<Rightarrow> float_show io v))"

text \<open>
  \<open>has_parent\<close> is \<^verbatim>\<open>m_parent != 0\<close> of the setting printed: false for the root of a
  \<^verbatim>\<open>Config\<close>, true for every child (\<^verbatim>\<open>add\<close> sets the parent of the copy it stores).
\<close>

fun print_setting :: "'f float_io \<Rightarrow> bool \<Rightarrow> nat \<Rightarrow> 'f setting \<Rightarrow> string"
and print_value :: "'f float_io \<Rightarrow> bool \<Rightarrow> string \<Rightarrow> nat \<Rightarrow> 'f basic_setting \<Rightarrow> string" where
  "print_setting io has_parent level (Setting name v) =
     (if name \<noteq> [] then name @ '' = '' else []) @ print_value io has_parent name level v"
| "print_value io has_parent name level (Scalar sc fmt) = print_scalar io sc fmt"
| "print_value io has_parent name level (SettingList xs) =
     (if xs = [] then ''()''
      else ''('' @ [NEWLINE]
        @ intercalate (replicate ((level + 1) * 4) CHR '' '' @ '','' @ [NEWLINE])
            (map (\<lambda>x. replicate ((level + 1) * 4) CHR '' ''
                       @ print_setting io True (level + 1) x @ [NEWLINE]) xs)
        @ replicate (level * 4) CHR '' '' @ '')'')"
| "print_value io has_parent name level (SettingArray xs) =
     ''['' @ intercalate '', '' (map (\<lambda>x. print_setting io True 0 x) xs) @ '']''"
| "print_value io has_parent name level (SettingContainer xs) =
     (let complex = (has_parent \<or> name \<noteq> []);
          level_c = (if complex then level + 1 else level)
      in if xs = [] then ''{}''
         else (if complex then ''{'' @ [NEWLINE] else [])
           @ concat (map (\<lambda>x. replicate (level_c * 4) CHR '' ''
                               @ print_setting io True level_c x @ '';'' @ [NEWLINE]) xs)
           @ (if complex then replicate (level * 4) CHR '' '' @ ''}'' else []))"

definition print_config :: "'f float_io \<Rightarrow> 'f setting \<Rightarrow> string" where
  \<comment> \<open>\<^verbatim>\<open>operator<<\<close> on the root of a \<^verbatim>\<open>Config\<close>, as \<^verbatim>\<open>writeFile\<close> calls it\<close>
  "print_config io cfg = print_setting io False 0 cfg"

section \<open>Structural equality\<close>

fun scalar_eq :: "('f, 'd) float_ops \<Rightarrow> 'f scalar \<Rightarrow> 'f scalar \<Rightarrow> bool" where
  "scalar_eq ops (SBool a) (SBool b) = (a = b)"
| "scalar_eq ops (SInt a) (SInt b) = (a = b)"
| "scalar_eq ops (SInt64 a) (SInt64 b) = (a = b)"
| "scalar_eq ops (SFloat a) (SFloat b) = float_eq ops a b"
| "scalar_eq ops (SString a) (SString b) = (a = b)"
| "scalar_eq ops _ _ = False"

fun setting_eq :: "('f, 'd) float_ops \<Rightarrow> 'f setting \<Rightarrow> 'f setting \<Rightarrow> bool" where
  "setting_eq ops (Setting n1 (Scalar a f1)) (Setting n2 (Scalar b f2)) =
     (n1 = n2 \<and> deduce_scalar_type a = deduce_scalar_type b \<and> scalar_eq ops a b)"
| "setting_eq ops (Setting n1 (SettingList xs)) (Setting n2 (SettingList ys)) =
     (n1 = n2 \<and> length xs = length ys \<and> list_all2 (setting_eq ops) xs ys)"
| "setting_eq ops (Setting n1 (SettingArray xs)) (Setting n2 (SettingArray ys)) =
     (n1 = n2 \<and> length xs = length ys \<and> list_all2 (setting_eq ops) xs ys)"
| "setting_eq ops (Setting n1 (SettingContainer xs)) (Setting n2 (SettingContainer ys)) =
     (n1 = n2 \<and> length xs = length ys \<and> list_all2 (setting_eq ops) xs ys)"
| "setting_eq ops _ _ = False"

section \<open>Example configurations\<close>

text \<open>
  The texts of the examples below. The first line of a file has its first character at
  offset 2: \<^verbatim>\<open>reset\<close> sets the offset to 1 and \<^verbatim>\<open>get\<close> increments it before the
  character is used.
\<close>

definition cfg_bool :: string where
  "cfg_bool = ''b = false;''"

definition printed_bool :: string where
  "printed_bool = ''b = 0;'' @ [NEWLINE]"

definition cfg_string :: string where
  "cfg_string = ''s = '' @ [DQUOTE] @ ''a'' @ [BACKSLASH, BACKSLASH] @ ''b'' @ [DQUOTE] @ '';''"

definition printed_string :: string where
  "printed_string = ''s = '' @ [DQUOTE] @ ''a'' @ [BACKSLASH] @ ''b'' @ [DQUOTE] @ '';'' @ [NEWLINE]"

definition cfg_empty :: string where
  "cfg_empty = []"

definition printed_empty :: string where
  "printed_empty = ''{}''"

definition cfg_true :: string where
  "cfg_true = ''name = true;''"

definition cfg_TRUE :: string where
  "cfg_TRUE = ''name = TRUE;''"

definition cfg_False :: string where
  "cfg_False = ''name = False;''"

definition cfg_false :: string where
  "cfg_false = ''name = false;''"

definition cfg_name_only :: string where
  "cfg_name_only = ''name ''"

definition cfg_name_eq :: string where
  "cfg_name_eq = ''name = ''"

definition tree_bool :: "'f setting" where
  "tree_bool = Setting [] (SettingContainer [Setting ''b'' (Scalar (SBool False) FormatDefault)])"

definition tree_int :: "'f setting" where
  "tree_int = Setting [] (SettingContainer [Setting ''b'' (Scalar (SInt 0) FormatDefault)])"

definition tree_string :: "'f setting" where
  "tree_string = Setting [] (SettingContainer
     [Setting ''s'' (Scalar (SString [CHR ''a'', BACKSLASH, CHR ''b'']) FormatDefault)])"

definition tree_empty :: "'f setting" where
  "tree_empty = Setting [] (SettingContainer [])"

definition tree_name_false :: "'f setting" where
  "tree_name_false =
     Setting [] (SettingContainer [Setting ''name'' (Scalar (SBool False) FormatDefault)])"

(*DEFS-END*)

section \<open>Properties\<close>

lemma integral_simps:
  "integral TypeBoolean" "integral TypeInt" "integral TypeInt64"
  "\<not> integral TypeFloat" "\<not> integral TypeString"
  by (simp_all add: integral_def)

lemma sint_scast_32_64: "sint (scast (v :: 32 word) :: 64 word) = sint v"
  by (simp add: sint_up_scast is_up)

lemma sint32_bounds: "- 2147483648 \<le> sint (v :: 32 word)" "sint (v :: 32 word) \<le> 2147483647"
  using sint_ge[of v] sint_lt[of v] by simp_all

text \<open>
  Claim C7. For a stored Int or Int64, a conversion to an integer type raises
  SettingType exactly when the stored value is outside the range of the requested
  type: Int64 to \<^verbatim>\<open>int\<close> outside \<open>[-2^31, 2^31 - 1]\<close>, Int64 to \<^verbatim>\<open>unsigned\<close> outside
  \<open>[0, 2^32 - 1]\<close>, and Int or Int64 to \<^verbatim>\<open>unsigned\<close> or \<^verbatim>\<open>unsigned long\<close> when
  negative. The conversions that cannot leave the range (Int to \<^verbatim>\<open>int\<close>, anything to
  \<^verbatim>\<open>long\<close>) never raise.
\<close>

theorem integer_range_checks:
  "raises_type_error (lookupValue_int (SInt64 v64 :: 'f scalar))
     = (sint v64 < - (2 ^ 31) \<or> 2 ^ 31 - 1 < sint v64)
   \<and> raises_type_error (lookupValue_unsigned (SInt64 v64 :: 'f scalar))
     = (sint v64 < 0 \<or> 2 ^ 32 - 1 < sint v64)
   \<and> raises_type_error (lookupValue_ulong (SInt64 v64 :: 'f scalar)) = (sint v64 < 0)
   \<and> raises_type_error (lookupValue_unsigned (SInt v32 :: 'f scalar)) = (sint v32 < 0)
   \<and> raises_type_error (lookupValue_ulong (SInt v32 :: 'f scalar)) = (sint v32 < 0)
   \<and> raises_type_error (lookupValue_int (SInt v32 :: 'f scalar)) = False
   \<and> raises_type_error (lookupValue_long (SInt v32 :: 'f scalar)) = False
   \<and> raises_type_error (lookupValue_long (SInt64 v64 :: 'f scalar)) = False"
  using sint32_bounds[of v32]
  by (auto simp: raises_type_error_def lookupValue_int_def lookupValue_unsigned_def
      lookupValue_ulong_def integral_simps type_ex_def sint_scast_32_64)

lemma sint32_not_out: "\<not> 2147483647 < sint (v :: 32 word)" "\<not> sint (v :: 32 word) < - 2147483648"
  using sint32_bounds[of v] by simp_all

text \<open>
  Claim C2, as amended. The code converts a Boolean to \<^verbatim>\<open>float\<close> and to \<^verbatim>\<open>double\<close>:
  the result is the float of 1 for true and of 0 for false. With these two cells
  permitted (\<open>code_matrix\<close>), every conversion the matrix permits succeeds and every
  conversion it forbids raises SettingType.
\<close>

theorem conversion_matrix_realized:
  "lookupValue_float ops (SBool b) = Inr (float_of_long ops (if b then 1 else 0))
   \<and> lookupValue_double ops (SBool b)
       = Inr (double_of_float ops (float_of_long ops (if b then 1 else 0)))
   \<and> (code_matrix (deduce_scalar_type s) tg = Permitted \<longrightarrow> \<not> isl (convert_to ops tg s))
   \<and> (code_matrix (deduce_scalar_type s) tg = Forbidden \<longrightarrow> raises_type_error (convert_to ops tg s))"
  apply (cases s; cases tg)
  apply (auto simp: code_matrix_def raises_type_error_def lookupValue_int_def lookupValue_unsigned_def
      lookupValue_ulong_def lookupValue_bool_def lookupValue_float_def lookupValue_double_def lookupValue_string_def integral_simps type_ex_def sint_scast_32_64 isl_map_sum sint32_not_out)
  done

theorem conversion_matrix_realized_witness:
  "code_matrix (deduce_scalar_type (SBool True :: rat scalar)) T_float = Permitted
   \<and> convert_to exact_ops T_float (SBool True) = Inr (V_float 1)
   \<and> code_matrix (deduce_scalar_type (SString ''x'' :: rat scalar)) T_int = Forbidden
   \<and> raises_type_error (convert_to exact_ops T_int (SString ''x''))"
  using conversion_matrix_realized [of exact_ops True "SBool True" T_float]
    conversion_matrix_realized [of exact_ops True "SString ''x''" T_int]
  by (simp add: code_matrix_def lookupValue_float_def integral_simps exact_ops_def)

text \<open>
  The claim as stated fails: the spec's matrix forbids Boolean to \<^verbatim>\<open>float\<close> and to
  \<^verbatim>\<open>double\<close>, and the code returns 1 for a stored true.
\<close>

theorem boolean_to_float_counterexample:
  "spec_matrix TypeBoolean T_float = Forbidden
   \<and> spec_matrix TypeBoolean T_double = Forbidden
   \<and> lookupValue_float exact_ops (SBool True) = Inr 1
   \<and> lookupValue_double exact_ops (SBool True) = Inr 1
   \<and> \<not> raises_type_error (lookupValue_float exact_ops (SBool True))
   \<and> \<not> raises_type_error (lookupValue_double exact_ops (SBool True))"
  by (simp add: lookupValue_float_def lookupValue_double_def integral_simps exact_ops_def
      raises_type_error_def)

lemma check_path_invalid: "invalid_path path \<Longrightarrow> is_invalid_argument (check_path path)"
proof (cases path)
  case Nil
  then show ?thesis by (simp add: check_path_def is_invalid_argument_def)
next
  case (Cons a list)
  then have ne: "path \<noteq> []" by simp
  assume "invalid_path path"
  with ne have "path ! 0 = CHR ''.'' \<or> path ! (length path - 1) = CHR ''.''"
    by (simp add: invalid_path_def hd_conv_nth last_conv_nth)
  with ne show ?thesis by (simp add: check_path_def is_invalid_argument_def)
qed

lemma setting_at_empty: "setting_at s [] = Inr s"
  by (subst setting_at.simps) simp

text \<open>
  Claim C6, as amended. For every path that is empty or begins or ends with a dot,
  \<^verbatim>\<open>exists\<close> and \<^verbatim>\<open>remove\<close> raise \<^verbatim>\<open>std::invalid_argument\<close>, which is not the
  setting-not-found exception, whatever the tree holds. \<^verbatim>\<open>operator[]\<close> is \<^verbatim>\<open>_at\<close>,
  which does not call \<^verbatim>\<open>_check_path\<close>: on the empty path it returns the setting itself.
\<close>

theorem invalid_path_rejected:
  "(invalid_path path \<longrightarrow>
      is_invalid_argument (exists s path) \<and> \<not> is_not_found (exists s path)
      \<and> is_invalid_argument (remove s path) \<and> \<not> is_not_found (remove s path))
   \<and> setting_at s [] = Inr s"
  using check_path_invalid [of path]
  by (auto simp: exists_def remove_def is_invalid_argument_def is_not_found_def setting_at_empty
      split: sum.splits error.splits)

theorem invalid_path_rejected_witness:
  "invalid_path ''.a'' \<and> invalid_path ''a.'' \<and> invalid_path []
   \<and> is_invalid_argument (exists example_root ''.a'')
   \<and> is_invalid_argument (remove example_root ''a.'')
   \<and> is_invalid_argument (exists example_root [])
   \<and> setting_at example_root [] = Inr example_root"
  using invalid_path_rejected [of "''.a''" example_root]
    invalid_path_rejected [of "''a.''" example_root]
    invalid_path_rejected [of "[]" example_root]
  by (simp add: invalid_path_def)

text \<open>
  The claim as stated fails for \<^verbatim>\<open>operator[]\<close>: on the empty path it returns the
  setting, a leading dot gives setting-not-found, and a trailing dot is ignored.
\<close>

theorem operator_index_counterexample:
  "invalid_path [] \<and> invalid_path ''.a'' \<and> invalid_path ''a.''
   \<and> setting_at example_root [] = Inr example_root
   \<and> setting_at example_root ''.a''
       = Inl (SettingNotFoundException ''Setting not found'' ''.a'')
   \<and> setting_at example_root ''a.'' = Inr (Setting ''a'' (Scalar (SInt 5) FormatDefault))
   \<and> \<not> is_invalid_argument (setting_at example_root [])
   \<and> \<not> is_invalid_argument (setting_at example_root ''.a'')
   \<and> \<not> is_invalid_argument (setting_at example_root ''a.'')"
  by (simp add: invalid_path_def example_root_def setting_at.simps long_path_def path_local_def
      path_remote_def convert_index_def rx_index_match_def rethrow_not_found_def not_found_ex_def
      is_invalid_argument_def)

lemma every_error_is_std_exception: "is_std_exception e"
  by (cases e) simp_all

text \<open>
  Claim C10, as amended. \<^verbatim>\<open>lookupValue(path, value)\<close> never lets an exception out:
  it returns true with the converted value when \<^verbatim>\<open>_at(path)\<close> resolves and the
  conversion succeeds, and false with the output argument unchanged when either
  raises. The path is not validated: the empty path resolves to the setting itself.
\<close>

theorem lookupValue_total:
  "lookupValue ops tg s path val =
     Inr (case setting_at s path of
            Inl e \<Rightarrow> (False, val)
          | Inr c \<Rightarrow> (case operator_T ops tg c of Inl e \<Rightarrow> (False, val) | Inr v \<Rightarrow> (True, v)))"
  by (simp add: lookupValue_def catch_std_exception_def every_error_is_std_exception
      split: sum.splits)

text \<open>
  The claim as stated fails on invalid paths: with the empty path, or a path that
  ends with a dot, \<^verbatim>\<open>lookupValue\<close> returns true and stores the value.
\<close>

theorem lookupValue_invalid_path_counterexample:
  "invalid_path [] \<and> invalid_path ''a.''
   \<and> lookupValue exact_ops T_int (Setting ''a'' (Scalar (SInt 5) FormatDefault)) [] (V_int 0)
       = Inr (True, V_int 5)
   \<and> lookupValue exact_ops T_int example_root ''a.'' (V_int 0) = Inr (True, V_int 5)"
  by (simp add: invalid_path_def example_root_def lookupValue_def catch_std_exception_def
      setting_at.simps long_path_def path_local_def path_remote_def convert_index_def
      rx_index_match_def rethrow_not_found_def operator_T_def lookupValue_int_def integral_simps)

lemma get_is_string: "is_string (get st c) = is_string st"
  by (simp add: get_def Let_def)

lemma skip_comment_loop_unterminated:
  "\<not> is_string st \<Longrightarrow> \<not> closes escape body \<Longrightarrow>
     \<exists>st'. skip_comment_loop st sc True escape body = Inr (NUL, [], st')"
proof (induction body arbitrary: st escape)
  case Nil
  then show ?case by simp
next
  case (Cons c body)
  have ns: "\<not> is_string (get st c)"
    using Cons.prems(1) by (simp add: get_is_string)
  from Cons.prems(2) have nc: "\<not> (c = CHR ''/'' \<and> escape)" and rest: "\<not> closes (c = CHR ''*'') body"
    by (auto split: if_splits)
  show ?case
  proof (cases "c = CHR ''*''")
    case True
    with rest have "\<not> closes True body" by simp
    from Cons.IH [OF ns this] True ns nc show ?thesis by (simp add: Let_def)
  next
    case False
    with rest have "\<not> closes False body" by simp
    from Cons.IH [OF ns this] False ns nc show ?thesis by (auto simp: Let_def)
  qed
qed

text \<open>
  Claim C8 fails on the code. When the input ends inside a block comment (the text after
  \<^verbatim>\<open>/*\<close> never closes it), \<^verbatim>\<open>skip_comment\<close> leaves its loop and returns 0, and
  \<^verbatim>\<open>operator()\<close> returns false: the token stream ends with no exception.
\<close>

theorem unterminated_block_comment_ends_silently:
  "\<not> closes False body \<Longrightarrow> tokenize (''/*'' @ body) = ([], None)"
proof -
  assume nc: "\<not> closes False body"
  let ?st2 = "get (get reset CHR ''/'') CHR ''*''"
  have ns1: "\<not> is_string (get reset CHR ''/'')" and ns2: "\<not> is_string ?st2"
    by (simp_all add: get_is_string reset_def)
  obtain st' where sk: "skip_comment_loop ?st2 False True False body = Inr (NUL, [], st')"
    using skip_comment_loop_unterminated [OF ns2 nc] by blast
  have "skip_comment reset (''/*'' @ body) = Inr (NUL, [], st')"
    using sk ns1 by (simp add: skip_comment_def Let_def)
  then have "tokenizer_loop reset False False (mk_token [] 0 0) (''/*'' @ body)
               = Inr (False, mk_token [] 0 0, [], st')"
    by (subst tokenizer_loop.simps) simp
  then have "tokenizer_call reset (mk_token [] 0 0) (''/*'' @ body)
               = Inr (False, mk_token [] 0 0, [], st')"
    by (simp add: tokenizer_call_def reset_def)
  then have "token_stream reset (mk_token [] 0 0) (''/*'' @ body) = ([], None)"
    by (subst token_stream.simps) simp
  then show ?thesis by (simp add: tokenize_def)
qed

theorem unterminated_block_comment_witness:
  "\<not> closes False '' abc * / '' \<and> tokenize ''/* abc * / '' = ([], None)"
  using unterminated_block_comment_ends_silently [of "'' abc * / ''"] by simp

lemma unterminated_block_comment_after_tokens:
  "tokenize ''a = 1; /* abc'' =
     ([\<lparr>tok_text = ''a'', tok_line = 1, tok_offset = 2, tok_file = None\<rparr>,
       \<lparr>tok_text = ''='', tok_line = 1, tok_offset = 4, tok_file = None\<rparr>,
       \<lparr>tok_text = ''1'', tok_line = 1, tok_offset = 6, tok_file = None\<rparr>,
       \<lparr>tok_text = '';'', tok_line = 1, tok_offset = 7, tok_file = None\<rparr>],
      None)"
  by code_simp

lemma lone_slash_at_end_raises:
  "tokenize ''a = 1; /'' =
     ([\<lparr>tok_text = ''a'', tok_line = 1, tok_offset = 2, tok_file = None\<rparr>,
       \<lparr>tok_text = ''='', tok_line = 1, tok_offset = 4, tok_file = None\<rparr>,
       \<lparr>tok_text = ''1'', tok_line = 1, tok_offset = 6, tok_file = None\<rparr>,
       \<lparr>tok_text = '';'', tok_line = 1, tok_offset = 7, tok_file = None\<rparr>],
      Some (ParseException [] [] 1 9))"
  by code_simp

lemma self_include_tokens:
  "tokenize (''@include '' @ [DQUOTE] @ ''a.cfg'' @ [DQUOTE] @ [NEWLINE])
     = ([\<lparr>tok_text = ''@include'', tok_line = 1, tok_offset = 2, tok_file = None\<rparr>,
         \<lparr>tok_text = [DQUOTE] @ ''a.cfg'' @ [DQUOTE], tok_line = 1, tok_offset = 11,
            tok_file = None\<rparr>], None)"
  by code_simp

lemma self_include_path:
  "parser_include n self_include_fs ''/d'' level ([DQUOTE] @ ''a.cfg'' @ [DQUOTE])
     = include_files n self_include_fs ''/d'' level [''/d/a.cfg''] []"
proof -
  have ls: "fs_list self_include_fs ''/d'' = Some [''a.cfg'']"
    and ab: "\<And>p. fs_absolute self_include_fs p = p"
    and rx: "fs_regex_match self_include_fs ''a.cfg'' ''^a.cfg$''"
    by (simp_all add: self_include_fs_def literal_regex_match_def)
  have cp: "construct_path (remove_quotes ([DQUOTE] @ ''a.cfg'' @ [DQUOTE])) ''/d'' = Inr ''/d/a.cfg''"
    by (simp add: remove_quotes_def construct_path_def)
  have fl: "find_last_of ''/d/a.cfg'' CHR ''/'' = Some 2"
    by (simp add: find_last_of_def)
  show ?thesis
    apply (subst parser_include.simps)
    apply (subst cp)
    apply (simp add: fl ls ab rx Let_def include_files.simps)
    done
qed

text \<open>
  Claim C5 fails on the code. The file \<^verbatim>\<open>/d/a.cfg\<close> holds \<^verbatim>\<open>@include "a.cfg"\<close> and
  \<^verbatim>\<open>/d\<close> is the include directory. Whatever the fuel, the parser of this file does not
  return: each \<^verbatim>\<open>include\<close> constructs a parser for the same file, and no depth is
  ever compared with a bound. No exception is raised, a \<^verbatim>\<open>FileIOException\<close> included.
\<close>

theorem self_include_never_returns:
  "parser_parse n self_include_fs ''/d'' level ''/d/a.cfg'' = None"
proof (induction n arbitrary: level)
  case 0
  show ?case by (simp add: parser_parse.simps)
next
  case (Suc n)
  have rd: "fs_read self_include_fs ''/d/a.cfg''
              = Some (''@include '' @ [DQUOTE] @ ''a.cfg'' @ [DQUOTE] @ [NEWLINE])"
    by (simp add: self_include_fs_def)
  have "parser_include n self_include_fs ''/d'' level ([DQUOTE] @ ''a.cfg'' @ [DQUOTE]) = None"
    using Suc.IH [of "level + 1"] by (subst self_include_path) (simp add: include_files.simps)
  then show ?case
    using self_include_tokens by (simp add: rd parser_parse.simps parse_loop.simps)
qed

text \<open>
  With fuel for two nested parsers, a file that includes another one returns the tokens
  of both, the included ones in the place of the directive.
\<close>

lemma include_flattening_example:
  "parser_parse 2 two_files_fs ''/d'' 0 ''/d/a.cfg''
     = Some (Inr [\<lparr>tok_text = ''u'', tok_line = 1, tok_offset = 2, tok_file = Some ''/d/b.cfg''\<rparr>,
                  \<lparr>tok_text = ''='', tok_line = 1, tok_offset = 4, tok_file = Some ''/d/b.cfg''\<rparr>,
                  \<lparr>tok_text = ''1'', tok_line = 1, tok_offset = 6, tok_file = Some ''/d/b.cfg''\<rparr>,
                  \<lparr>tok_text = '';'', tok_line = 1, tok_offset = 7, tok_file = Some ''/d/b.cfg''\<rparr>,
                  \<lparr>tok_text = ''v'', tok_line = 2, tok_offset = 1, tok_file = Some ''/d/a.cfg''\<rparr>,
                  \<lparr>tok_text = ''='', tok_line = 2, tok_offset = 3, tok_file = Some ''/d/a.cfg''\<rparr>,
                  \<lparr>tok_text = ''2'', tok_line = 2, tok_offset = 5, tok_file = Some ''/d/a.cfg''\<rparr>,
                  \<lparr>tok_text = '';'', tok_line = 2, tok_offset = 6, tok_file = Some ''/d/a.cfg''\<rparr>])"
  by code_simp

section \<open>The parser and the printer on the examples\<close>

lemma tokens_cfg_bool:
  "parser_parse (Suc 0) (one_file_fs cfg_bool) [] 0 ''/cfg''
     = Some (Inr [\<lparr>tok_text = ''b'', tok_line = 1, tok_offset = 2, tok_file = Some ''/cfg''\<rparr>,
                   \<lparr>tok_text = ''='', tok_line = 1, tok_offset = 4, tok_file = Some ''/cfg''\<rparr>,
                   \<lparr>tok_text = ''false'', tok_line = 1, tok_offset = 6, tok_file = Some ''/cfg''\<rparr>,
                   \<lparr>tok_text = '';'', tok_line = 1, tok_offset = 11, tok_file = Some ''/cfg''\<rparr>])"
  by code_simp

lemma tokens_printed_bool:
  "parser_parse (Suc 0) (one_file_fs printed_bool) [] 0 ''/cfg''
     = Some (Inr [\<lparr>tok_text = ''b'', tok_line = 1, tok_offset = 2, tok_file = Some ''/cfg''\<rparr>,
                   \<lparr>tok_text = ''='', tok_line = 1, tok_offset = 4, tok_file = Some ''/cfg''\<rparr>,
                   \<lparr>tok_text = ''0'', tok_line = 1, tok_offset = 6, tok_file = Some ''/cfg''\<rparr>,
                   \<lparr>tok_text = '';'', tok_line = 1, tok_offset = 7, tok_file = Some ''/cfg''\<rparr>])"
  by code_simp

lemma tokens_cfg_string:
  "parser_parse (Suc 0) (one_file_fs cfg_string) [] 0 ''/cfg''
     = Some (Inr [\<lparr>tok_text = ''s'', tok_line = 1, tok_offset = 2, tok_file = Some ''/cfg''\<rparr>,
                   \<lparr>tok_text = ''='', tok_line = 1, tok_offset = 4, tok_file = Some ''/cfg''\<rparr>,
                   \<lparr>tok_text = [DQUOTE, CHR ''a'', BACKSLASH, CHR ''b'', DQUOTE], tok_line = 1, tok_offset = 6, tok_file = Some ''/cfg''\<rparr>,
                   \<lparr>tok_text = '';'', tok_line = 1, tok_offset = 12, tok_file = Some ''/cfg''\<rparr>])"
  by code_simp

lemma tokens_printed_string:
  "parser_parse (Suc 0) (one_file_fs printed_string) [] 0 ''/cfg''
     = Some (Inl (ParseException [] ''/cfg'' 1 9))"
  by code_simp

lemma tokens_cfg_empty:
  "parser_parse (Suc 0) (one_file_fs cfg_empty) [] 0 ''/cfg''
     = Some (Inr [])"
  by code_simp

lemma tokens_printed_empty:
  "parser_parse (Suc 0) (one_file_fs printed_empty) [] 0 ''/cfg''
     = Some (Inr [\<lparr>tok_text = ''{'', tok_line = 1, tok_offset = 2, tok_file = Some ''/cfg''\<rparr>,
                   \<lparr>tok_text = ''}'', tok_line = 1, tok_offset = 3, tok_file = Some ''/cfg''\<rparr>])"
  by code_simp

lemma tokens_cfg_true:
  "parser_parse (Suc 0) (one_file_fs cfg_true) [] 0 ''/cfg''
     = Some (Inr [\<lparr>tok_text = ''name'', tok_line = 1, tok_offset = 2, tok_file = Some ''/cfg''\<rparr>,
                   \<lparr>tok_text = ''='', tok_line = 1, tok_offset = 7, tok_file = Some ''/cfg''\<rparr>,
                   \<lparr>tok_text = ''true'', tok_line = 1, tok_offset = 9, tok_file = Some ''/cfg''\<rparr>,
                   \<lparr>tok_text = '';'', tok_line = 1, tok_offset = 13, tok_file = Some ''/cfg''\<rparr>])"
  by code_simp

lemma tokens_cfg_TRUE:
  "parser_parse (Suc 0) (one_file_fs cfg_TRUE) [] 0 ''/cfg''
     = Some (Inr [\<lparr>tok_text = ''name'', tok_line = 1, tok_offset = 2, tok_file = Some ''/cfg''\<rparr>,
                   \<lparr>tok_text = ''='', tok_line = 1, tok_offset = 7, tok_file = Some ''/cfg''\<rparr>,
                   \<lparr>tok_text = ''TRUE'', tok_line = 1, tok_offset = 9, tok_file = Some ''/cfg''\<rparr>,
                   \<lparr>tok_text = '';'', tok_line = 1, tok_offset = 13, tok_file = Some ''/cfg''\<rparr>])"
  by code_simp

lemma tokens_cfg_False:
  "parser_parse (Suc 0) (one_file_fs cfg_False) [] 0 ''/cfg''
     = Some (Inr [\<lparr>tok_text = ''name'', tok_line = 1, tok_offset = 2, tok_file = Some ''/cfg''\<rparr>,
                   \<lparr>tok_text = ''='', tok_line = 1, tok_offset = 7, tok_file = Some ''/cfg''\<rparr>,
                   \<lparr>tok_text = ''False'', tok_line = 1, tok_offset = 9, tok_file = Some ''/cfg''\<rparr>,
                   \<lparr>tok_text = '';'', tok_line = 1, tok_offset = 14, tok_file = Some ''/cfg''\<rparr>])"
  by code_simp

lemma tokens_cfg_false:
  "parser_parse (Suc 0) (one_file_fs cfg_false) [] 0 ''/cfg''
     = Some (Inr [\<lparr>tok_text = ''name'', tok_line = 1, tok_offset = 2, tok_file = Some ''/cfg''\<rparr>,
                   \<lparr>tok_text = ''='', tok_line = 1, tok_offset = 7, tok_file = Some ''/cfg''\<rparr>,
                   \<lparr>tok_text = ''false'', tok_line = 1, tok_offset = 9, tok_file = Some ''/cfg''\<rparr>,
                   \<lparr>tok_text = '';'', tok_line = 1, tok_offset = 14, tok_file = Some ''/cfg''\<rparr>])"
  by code_simp

lemma tokens_cfg_name_only:
  "parser_parse (Suc 0) (one_file_fs cfg_name_only) [] 0 ''/cfg''
     = Some (Inr [\<lparr>tok_text = ''name'', tok_line = 1, tok_offset = 2, tok_file = Some ''/cfg''\<rparr>])"
  by code_simp

lemma tokens_cfg_name_eq:
  "parser_parse (Suc 0) (one_file_fs cfg_name_eq) [] 0 ''/cfg''
     = Some (Inr [\<lparr>tok_text = ''name'', tok_line = 1, tok_offset = 2, tok_file = Some ''/cfg''\<rparr>,
                   \<lparr>tok_text = ''='', tok_line = 1, tok_offset = 7, tok_file = Some ''/cfg''\<rparr>])"
  by code_simp

lemmas grammar_simps =
  get_setting_list.simps get_setting.simps get_group.simps get_list.simps get_array.simps
  list_loop.simps get_list_item.simps get_scalar_item_def get_scalar_type_def
  rx_boolean_def rx_int_def rx_int64_def rx_hex_def rx_hex64_def rx_float_def hex_prefix_def
  long_suffix_def exponent_part_def opt_sign_def is_digit_def is_xdigit_def
  extract_bool_def extract_int_def extract_long_def extract_value_def digit_val_def xdigit_val_def
  assign_def setFormat_def setting_add_def skip_end_def find_pair_def find_list_item_def
  remove_quotes_def concat_string_def construct_path_def syntax_exception_def

lemmas printer_simps =
  print_config_def print_scalar_def show_int_def show_nat.simps show_hex.simps hex_digit_char_def

lemma skip_end_shorter: "length (skip_end toks) \<le> length toks"
  by (simp add: skip_end_def split: list.splits)

lemma get_setting_rest:
  "get_setting ops io identifier begin = Inr (s, begin') \<Longrightarrow> length begin' \<le> length begin"
proof (cases "begin")
  case Nil
  assume "get_setting ops io identifier begin = Inr (s, begin')"
  with Nil show ?thesis by (simp add: get_setting.simps)
next
  case (Cons tok r)
  assume g: "get_setting ops io identifier begin = Inr (s, begin')"
  show ?thesis
  proof (cases r)
    case Nil
    with g Cons show ?thesis by (simp add: get_setting.simps split: if_splits)
  next
    case (Cons b rest)
    have "\<And>k. length (skip_end (drop k rest)) \<le> length rest"
      using skip_end_shorter le_trans by (metis diff_le_self length_drop)
    then have le: "\<And>k. length (skip_end (drop k rest)) \<le> Suc (Suc (length rest))"
      using le_SucI by blast
    have le0: "length (skip_end rest) \<le> Suc (Suc (length rest))"
      using skip_end_shorter [of rest] by simp
    from g \<open>begin = tok # r\<close> Cons le le0 show ?thesis
      by (auto simp: get_setting.simps get_group.simps get_list.simps get_array.simps
          split: if_splits sum.splits)
  qed
qed

text \<open>
  So the test in \<open>get_setting_list\<close> always succeeds, and the function satisfies the
  equation of the source's loop.
\<close>

lemma get_setting_list_Cons:
  "get_setting_list ops io (tok # begin) =
     (if tok_text tok = ''['' \<or> tok_text tok = '']'' then
        Inl (syntax_exception ''unexpected array'' tok False)
      else if tok_text tok = ''{'' \<or> tok_text tok = ''}'' then
        Inl (syntax_exception ''unexpected group setting without identifier'' tok False)
      else if tok_text tok = '','' \<or> tok_text tok = ''='' \<or> tok_text tok = '':'' then
        Inl (syntax_exception (''unexpected token '' @ tok_text tok) tok False)
      else
        (case get_setting ops io tok begin of
           Inl e \<Rightarrow> Inl e
         | Inr (s, begin') \<Rightarrow>
             (case get_setting_list ops io begin' of
                Inl e \<Rightarrow> Inl e
              | Inr settings \<Rightarrow> Inr (s # settings))))"
  by (auto simp: get_setting_list.simps dest: get_setting_rest split: sum.splits)

lemma parse_cfg_bool:
  "parse_text ops io cfg_bool
     = Some (Inr (Setting [] (SettingContainer [Setting ''b'' (Scalar (SBool False) FormatDefault)])))"
  by (simp add: parse_text_def read_file_def tokens_cfg_bool grammar_simps)

lemma print_cfg_bool:
  "print_config io (Setting [] (SettingContainer [Setting ''b'' (Scalar (SBool False) FormatDefault)]))
     = printed_bool"
  by (simp add: printed_bool_def printer_simps)

lemma parse_printed_bool:
  "parse_text ops io printed_bool
     = Some (Inr (Setting [] (SettingContainer [Setting ''b'' (Scalar (SInt 0) FormatDefault)])))"
  by (simp add: parse_text_def read_file_def tokens_printed_bool grammar_simps)

lemma parse_cfg_string:
  "parse_text ops io cfg_string
     = Some (Inr (Setting [] (SettingContainer
         [Setting ''s'' (Scalar (SString [CHR ''a'', BACKSLASH, CHR ''b'']) FormatDefault)])))"
  by (simp add: parse_text_def read_file_def tokens_cfg_string grammar_simps)

lemma print_cfg_string:
  "print_config io (Setting [] (SettingContainer
       [Setting ''s'' (Scalar (SString [CHR ''a'', BACKSLASH, CHR ''b'']) FormatDefault)]))
     = printed_string"
  by (simp add: printed_string_def printer_simps)

lemma parse_printed_string:
  "parse_text ops io printed_string = Some (Inl (ParseException [] ''/cfg'' 1 9))"
  by (simp add: parse_text_def read_file_def tokens_printed_string grammar_simps)

lemma parse_cfg_empty:
  "parse_text ops io cfg_empty = Some (Inr (Setting [] (SettingContainer [])))"
  by (simp add: parse_text_def read_file_def tokens_cfg_empty grammar_simps)

lemma print_cfg_empty:
  "print_config io (Setting [] (SettingContainer [])) = printed_empty"
  by (simp add: printed_empty_def printer_simps)

lemma parse_printed_empty:
  "parse_text ops io printed_empty = Some (Inl (ParseException [] ''/cfg'' 1 2))"
  by (simp add: parse_text_def read_file_def tokens_printed_empty grammar_simps)

lemma parse_cfg_true: "parse_text ops io cfg_true = Some (Inr tree_name_false)"
  by (simp add: parse_text_def read_file_def tokens_cfg_true grammar_simps tree_name_false_def)

lemma parse_cfg_TRUE: "parse_text ops io cfg_TRUE = Some (Inr tree_name_false)"
  by (simp add: parse_text_def read_file_def tokens_cfg_TRUE grammar_simps tree_name_false_def)

lemma parse_cfg_false: "parse_text ops io cfg_false = Some (Inr tree_name_false)"
  by (simp add: parse_text_def read_file_def tokens_cfg_false grammar_simps tree_name_false_def)

lemma parse_cfg_False: "parse_text ops io cfg_False = Some (Inr tree_name_false)"
  by (simp add: parse_text_def read_file_def tokens_cfg_False grammar_simps tree_name_false_def)

lemma ci_match_Cons:
  "ci_match v (p # ps) \<Longrightarrow> \<exists>c cs. v = c # cs \<and> (c = p \<or> (of_char c :: nat) + 32 = of_char p)"
  by (cases v) auto

lemma boolean_literal_value:
  assumes "rx_boolean (tok_text v)"
  shows "get_scalar_item ops io name v = Inr (Setting name (Scalar (SBool False) FormatDefault))"
proof -
  from assms obtain c cs where v: "tok_text v = c # cs"
    and c: "c = CHR ''t'' \<or> (of_char c :: nat) = 84 \<or> c = CHR ''f'' \<or> (of_char c :: nat) = 70"
    by (auto simp: rx_boolean_def dest!: ci_match_Cons)
  from c have nq: "c \<noteq> DQUOTE" and nd: "\<not> is_digit c" and ns: "c \<noteq> CHR ''-''" "c \<noteq> CHR ''+''"
    by (auto simp: is_digit_def)
  have ty: "get_scalar_type (tok_text v) = TypeBoolean"
    using assms v nq by (simp add: get_scalar_type_def)
  have "extract_value False (tok_text v) = None"
    using v nd ns by (simp add: extract_value_def opt_sign_def)
  then have "extract_bool (tok_text v) = False"
    by (simp add: extract_bool_def)
  with ty show ?thesis
    by (simp add: get_scalar_item_def assign_def)
qed

text \<open>
  Claim C3 fails on the code. The token \<^verbatim>\<open>true\<close> is recognised as a Boolean, and its
  value is read with \<^verbatim>\<open>iss >> v\<close> from a stream that has no \<^verbatim>\<open>boolalpha\<close>: the
  extraction expects a number, converts nothing and stores false. Every spelling of
  \<^verbatim>\<open>true\<close> and of \<^verbatim>\<open>false\<close> yields a Boolean whose value is false.
\<close>

theorem true_literal_parses_as_false:
  "parse_text ops io cfg_true = Some (Inr tree_name_false)
   \<and> parse_text ops io cfg_TRUE = Some (Inr tree_name_false)
   \<and> parse_text ops io cfg_false = Some (Inr tree_name_false)
   \<and> parse_text ops io cfg_False = Some (Inr tree_name_false)
   \<and> getType (Setting ''name'' (Scalar (SBool False) FormatDefault) :: 'f setting) = TypeBoolean
   \<and> lookupValue_bool ops (SBool False) = Inr False"
  by (simp add: parse_cfg_true parse_cfg_TRUE parse_cfg_false parse_cfg_False
      lookupValue_bool_def integral_simps)

text \<open>
  Claim C1 fails on the code. Three trees the parser produces, printed and parsed again:
  a Boolean is printed as \<^verbatim>\<open>0\<close> and comes back as an Int; a string with a backslash
  is printed without the escape and the tokenizer rejects the text; the empty root is
  printed as \<^verbatim>\<open>{}\<close>, which the grammar rejects.
\<close>

theorem round_trip_fails:
  "parse_text ops io cfg_bool = Some (Inr tree_bool)
   \<and> print_config io tree_bool = printed_bool
   \<and> parse_text ops io printed_bool = Some (Inr tree_int)
   \<and> setting_eq ops tree_int tree_bool = False
   \<and> parse_text ops io cfg_string = Some (Inr tree_string)
   \<and> print_config io tree_string = printed_string
   \<and> parse_text ops io printed_string = Some (Inl (ParseException [] ''/cfg'' 1 9))
   \<and> parse_text ops io cfg_empty = Some (Inr tree_empty)
   \<and> print_config io tree_empty = printed_empty
   \<and> parse_text ops io printed_empty = Some (Inl (ParseException [] ''/cfg'' 1 2))"
  by (simp add: tree_bool_def tree_int_def tree_string_def tree_empty_def
      parse_cfg_bool print_cfg_bool parse_printed_bool parse_cfg_string print_cfg_string
      parse_printed_string parse_cfg_empty print_cfg_empty parse_printed_empty)

text \<open>
  Claim C4 fails on the code. The printer writes a String between double quotes with
  its characters as they are: a backslash, a double quote, a tab and a newline are
  not escaped.
\<close>

theorem printer_does_not_escape:
  "print_value io has_parent name level (Scalar (SString v) fmt) = [DQUOTE] @ v @ [DQUOTE]
   \<and> print_setting io True 0
         (Setting ''s'' (Scalar (SString [BACKSLASH, DQUOTE, TAB, NEWLINE]) FormatDefault))
       = ''s = '' @ [DQUOTE, BACKSLASH, DQUOTE, TAB, NEWLINE, DQUOTE]"
  by (simp add: print_scalar_def)

lemma parse_cfg_name_only:
  "parse_text ops io cfg_name_only = Some (Inl (ParseException [] ''/cfg'' 1 2))"
  by (simp add: parse_text_def read_file_def tokens_cfg_name_only grammar_simps)

lemma parse_cfg_name_eq:
  "parse_text ops io cfg_name_eq = Some (Inl (ParseException [] ''/cfg'' 1 7))"
  by (simp add: parse_text_def read_file_def tokens_cfg_name_eq grammar_simps)

text \<open>
  Claim C9 fails on the code. \<^verbatim>\<open>_syntax_exception\<close> adds the length of the token to a
  local variable when \<^verbatim>\<open>offset_at_end_of_token\<close> is set, and then constructs the
  exception from \<^verbatim>\<open>tok.offset\<close>: every Parse error, of the ``unexpected end of file''
  kind or not, reports the offset recorded for the token. For the text \<^verbatim>\<open>name\<close>, whose
  token starts at offset 2 and has 4 characters, the error reports 2 and not 6; for
  \<^verbatim>\<open>name =\<close> it reports the offset 7 of the \<^verbatim>\<open>=\<close> and not 8.
\<close>

theorem syntax_exception_offset:
  "error_offset (syntax_exception msg tok True) = Some (tok_offset tok)
   \<and> error_offset (syntax_exception msg tok False) = Some (tok_offset tok)
   \<and> parse_text ops io cfg_name_only = Some (Inl (ParseException [] ''/cfg'' 1 2))
   \<and> parse_text ops io cfg_name_eq = Some (Inl (ParseException [] ''/cfg'' 1 7))"
  by (simp add: syntax_exception_def parse_cfg_name_only parse_cfg_name_eq)

text \<open>
  More fuel never changes a result: \<open>None\<close> stands for the nesting of parsers going
  deeper than the fuel, and for nothing else.
\<close>

lemma include_files_mono:
  assumes PP: "\<And>fs d l f r. parser_parse n fs d l f = Some r \<Longrightarrow> parser_parse (Suc n) fs d l f = Some r"
  shows "include_files n fs d l files acc = Some r \<Longrightarrow> include_files (Suc n) fs d l files acc = Some r"
proof (induction files arbitrary: acc)
  case Nil
  then show ?case by (simp add: include_files.simps)
next
  case (Cons f files)
  from Cons.prems obtain x where x: "parser_parse n fs d (l + 1) f = Some x"
    by (auto simp: include_files.simps split: option.splits)
  have x': "parser_parse (Suc n) fs d (l + 1) f = Some x"
    using PP [OF x] .
  show ?case
  proof (cases x)
    case (Inl e)
    with Cons.prems x x' show ?thesis by (auto simp: include_files.simps)
  next
    case (Inr ts)
    with Cons.prems x have "include_files n fs d l files (acc @ ts) = Some r"
      by (simp add: include_files.simps)
    from Cons.IH [OF this] Inr x' show ?thesis by (simp add: include_files.simps)
  qed
qed

lemma parser_include_mono:
  assumes PP: "\<And>fs d l f r. parser_parse n fs d l f = Some r \<Longrightarrow> parser_parse (Suc n) fs d l f = Some r"
  shows "parser_include n fs d l p = Some r \<Longrightarrow> parser_include (Suc n) fs d l p = Some r"
  using include_files_mono [OF PP]
  by (auto simp: parser_include.simps Let_def split: sum.splits option.splits if_splits)

lemma parse_loop_Cons:
  "parse_loop n fs d l f i (t # rest) err acc =
     (if rest = [] \<and> err \<noteq> None then Some (Inl (syntax_exception_in (the err) f))
      else if i then
        (case parser_include n fs d l (tok_text t) of
           None \<Rightarrow> None
         | Some (Inl e) \<Rightarrow> Some (Inl (syntax_exception_in e f))
         | Some (Inr ts) \<Rightarrow> parse_loop n fs d l f False rest err (acc @ ts))
      else if tok_text t = ''@include'' then parse_loop n fs d l f True rest err acc
      else parse_loop n fs d l f i rest err (acc @ [t\<lparr>tok_file := Some f\<rparr>]))"
  by (cases rest; cases err) (auto simp: parse_loop.simps Let_def split: option.splits sum.splits)

lemma parse_loop_mono:
  assumes PP: "\<And>fs d l f r. parser_parse n fs d l f = Some r \<Longrightarrow> parser_parse (Suc n) fs d l f = Some r"
  shows "parse_loop n fs d l f i toks err acc = Some r
           \<Longrightarrow> parse_loop (Suc n) fs d l f i toks err acc = Some r"
proof (induction toks arbitrary: i acc)
  case Nil
  then show ?case by (simp add: parse_loop.simps)
next
  case (Cons t rest)
  show ?case
  proof (cases "rest = [] \<and> err \<noteq> None")
    case True
    with Cons.prems show ?thesis by (simp add: parse_loop_Cons)
  next
    case False
    show ?thesis
    proof (cases i)
      case True
      from Cons.prems True False
      obtain x where x: "parser_include n fs d l (tok_text t) = Some x"
        by (auto simp: parse_loop_Cons split: option.splits)
      have x': "parser_include (Suc n) fs d l (tok_text t) = Some x"
        using parser_include_mono [OF PP x] .
      show ?thesis
      proof (cases x)
        case (Inl e)
        with Cons.prems True False x x' show ?thesis by (auto simp: parse_loop_Cons)
      next
        case (Inr ts)
        with Cons.prems True False x
        have "parse_loop n fs d l f False rest err (acc @ ts) = Some r"
          by (auto simp: parse_loop_Cons)
        from Cons.IH [OF this] True False x' Inr show ?thesis
          by (auto simp: parse_loop_Cons)
      qed
    next
      case nI: False
      with Cons.prems False Cons.IH show ?thesis
        by (auto simp: parse_loop_Cons split: if_splits)
    qed
  qed
qed

lemma parser_parse_mono:
  "parser_parse n fs d l f = Some r \<Longrightarrow> parser_parse (Suc n) fs d l f = Some r"
proof (induction n arbitrary: fs d l f r)
  case 0
  then show ?case by (simp add: parser_parse.simps)
next
  case (Suc n)
  have PL: "\<And>i toks err acc r. parse_loop n fs d l f i toks err acc = Some r
              \<Longrightarrow> parse_loop (Suc n) fs d l f i toks err acc = Some r"
    using parse_loop_mono [OF Suc.IH] by blast
  obtain toks err where tk: "tokenize (case fs_read fs f of Some s \<Rightarrow> s | None \<Rightarrow> []) = (toks, err)"
    by (cases "tokenize (case fs_read fs f of Some s \<Rightarrow> s | None \<Rightarrow> [])") auto
  show ?case
  proof (cases "toks = [] \<and> err \<noteq> None")
    case True
    with Suc.prems tk show ?thesis by (auto simp: parser_parse.simps)
  next
    case False
    with Suc.prems tk have "parse_loop n fs d l f False toks err [] = Some r"
      by (auto simp: parser_parse.simps split: list.splits option.splits)
    from PL [OF this] False tk show ?thesis
      by (auto simp: parser_parse.simps split: list.splits option.splits)
  qed
qed

(*THMS-END*)

end
